theory Spec2Isabelle
  imports Complex_Main
begin

section \<open>Strings and numbers of the host language\<close>

text \<open>
  A TypeScript string is a sequence of UTF-16 code units and \<^verbatim>\<open>s.length\<close> counts them,
  so a string is a list of code units here. \<open>js\<close> embeds an ASCII literal.

  A TypeScript \<^verbatim>\<open>number\<close> is a double. A finite double is modelled by the real
  number it denotes, and \<open>fl\<close> below rounds a real to the nearest double, so that a decimal
  literal \<^verbatim>\<open>0.2\<close> is \<open>fl 0.2\<close> and a sum \<^verbatim>\<open>a + b\<close> is \<open>fl (a + b)\<close>. Where the
  code only adds small integer literals or rounds to an integer (the complexity score, the
  estimated time, the request counters) the value is an \<open>int\<close>, which is exact in both.
  \<^verbatim>\<open>NaN\<close> and the infinities are outside the model.
\<close>

type_synonym jsstring = "nat list"

definition js :: "string \<Rightarrow> jsstring" where
  "js s = map of_char s"

text \<open>\<^verbatim>\<open>s.startsWith(p)\<close>\<close>

fun startsWith :: "jsstring \<Rightarrow> jsstring \<Rightarrow> bool" where
  "startsWith s [] = True"
| "startsWith [] (p # ps) = False"
| "startsWith (c # cs) (p # ps) = (c = p \<and> startsWith cs ps)"

text \<open>\<^verbatim>\<open>s.includes(kw)\<close>\<close>

fun js_includes :: "jsstring \<Rightarrow> jsstring \<Rightarrow> bool" where
  "js_includes [] kw = (kw = [])"
| "js_includes (c # cs) kw = (startsWith (c # cs) kw \<or> js_includes cs kw)"

text \<open>
  \<^verbatim>\<open>s.trim()\<close> strips the code units that ECMAScript calls white space or line
  terminator from both ends.
\<close>

definition isWhiteSpace :: "nat \<Rightarrow> bool" where
  "isWhiteSpace c \<longleftrightarrow>
     c \<in> set [9, 10, 11, 12, 13, 32, 160, 5760, 8232, 8233, 8239, 8287, 12288, 65279]
     \<or> (8192 \<le> c \<and> c \<le> 8202)"

definition trim :: "jsstring \<Rightarrow> jsstring" where
  "trim s = rev (dropWhile isWhiteSpace (rev (dropWhile isWhiteSpace s)))"

text \<open>
  \<^verbatim>\<open>s.toLowerCase()\<close> is the Unicode case mapping of the host. The functions below
  that call it take it as their first argument \<open>toLowerCase\<close>, and every theorem holds
  for any such function. \<open>asciiLowerCase\<close> is what the host computes on a string without
  upper-case letters outside \<open>A\<close>..\<open>Z\<close>; the concrete examples use it.
\<close>

definition asciiLowerCase :: "jsstring \<Rightarrow> jsstring" where
  "asciiLowerCase s = map (\<lambda>c. if 65 \<le> c \<and> c \<le> 90 then c + 32 else c) s"

text \<open>
  \<^verbatim>\<open>s.match(/pat/i)\<close> for a pattern of literal ASCII characters: the index of the
  leftmost position where the pattern matches, letters compared without case. With the
  \<^verbatim>\<open>i\<close> flag a regular expression compares the canonical (upper-case) forms of
  two code units, and never identifies a code unit from 128 on with an ASCII one, so for
  an ASCII pattern only the letters \<open>a\<close>..\<open>z\<close> are folded.
\<close>

definition canonicalize :: "nat \<Rightarrow> nat" where
  "canonicalize ch = (if 97 \<le> ch \<and> ch \<le> 122 then ch - 32 else ch)"

fun matchesAt :: "jsstring \<Rightarrow> jsstring \<Rightarrow> bool" where
  "matchesAt [] s = True"
| "matchesAt (p # ps) [] = False"
| "matchesAt (p # ps) (c # cs) = (canonicalize p = canonicalize c \<and> matchesAt ps cs)"

fun matchIndex :: "jsstring \<Rightarrow> jsstring \<Rightarrow> nat option" where
  "matchIndex pat [] = (if pat = [] then Some 0 else None)"
| "matchIndex pat (c # cs) =
     (if matchesAt pat (c # cs) then Some 0 else map_option Suc (matchIndex pat cs))"

subsection \<open>Double arithmetic\<close>

text \<open>
  Every arithmetic operation on doubles returns the exact result rounded to the nearest
  number with a 53-bit significand, a tie going to the even significand. \<open>exponent x\<close>
  is the integer \<open>e\<close> with \<open>2 ^ e \<le> x < 2 ^ (e + 1)\<close> for positive \<open>x\<close>, computed from the bit
  length of the integer part of \<open>x\<close> or of \<open>1 / x\<close>. The exponent is not bounded here:
  overflow and the subnormal range are not modelled, and no computation of the evaluator
  reaches them on finite inputs.
\<close>

function bitLength :: "int \<Rightarrow> int" where
  "bitLength n = (if n \<le> 0 then 0 else 1 + bitLength (n div 2))"
  by pat_completeness auto
termination
  by (relation "measure nat") auto

definition exponent :: "real \<Rightarrow> int" where
  "exponent x =
     (if 1 \<le> x then bitLength \<lfloor>x\<rfloor> - 1 else - bitLength (\<lceil>1 / x\<rceil> - 1))"

definition pow2 :: "int \<Rightarrow> real" where
  "pow2 k = (if 0 \<le> k then 2 ^ nat k else 1 / 2 ^ nat (- k))"

definition roundHalfEven :: "real \<Rightarrow> int" where
  "roundHalfEven m =
     (let f = \<lfloor>m\<rfloor>; d = m - real_of_int f in
      if d < 1 / 2 then f else if 1 / 2 < d then f + 1 else if even f then f else f + 1)"

definition fl :: "real \<Rightarrow> real" where
  "fl x =
     (if x = 0 then 0
      else (let ulp = pow2 (exponent \<bar>x\<bar> - 52)
            in real_of_int (roundHalfEven (x / ulp)) * ulp))"

section \<open>Types (types.ts)\<close>

datatype TaskType =
    greeting | status_check | simple_qa | scheduled_task | text_summary
  | format_conversion | code_generation | complex_analysis | multi_step_planning
  | creative_writing | debugging | research | keyword_triggered | unknown

datatype Precision = high | medium | low

record TaskThresholds =
  maxEstimatedTime :: real
  maxComplexity :: real
  minConfidence :: real

record StatsConfig =
  enabled :: bool
  logPath :: jsstring

record CerebellumConfig =
  enabled :: bool
  provider :: jsstring
  model :: jsstring
  baseUrl :: jsstring
  thresholds :: TaskThresholds
  forceCerebellumFor :: "TaskType list"
  forceCerebrumFor :: "TaskType list"
  stats :: StatsConfig

record TaskInfo =
  type :: TaskType
  prompt :: jsstring
  hasCode :: bool
  hasMath :: bool
  estimatedTokens :: real
  isHighFrequency :: bool
  historyLength :: real
  isScheduledTask :: bool

text \<open>
  The reason of an assessment is built from template literals. It is kept as the pieces
  of the template in order: the literal text, and each substituted number as the number
  (\<open>Num\<close>) or as the argument of \<^verbatim>\<open>toFixed(2)\<close> (\<open>Fixed2\<close>), not yet rendered.
\<close>

datatype piece = Lit string | Num real | Fixed2 real

record TaskAssessment =
  useCerebellum :: bool
  confidence :: real
  reason :: "piece list"
  taskType :: TaskType
  estimatedTokens :: real
  estimatedTime :: int
  complexity :: int
  precisionRequirement :: Precision

definition DEFAULT_CEREBELLUM_CONFIG :: CerebellumConfig where
  "DEFAULT_CEREBELLUM_CONFIG =
     \<lparr> CerebellumConfig.enabled = True,
       provider = js ''ollama'',
       model = js ''qwen2.5:0.5b'',
       baseUrl = js ''http://127.0.0.1:11434'',
       thresholds = \<lparr> maxEstimatedTime = 1200, maxComplexity = 4, minConfidence = fl 0.7 \<rparr>,
       forceCerebellumFor =
         [greeting, status_check, simple_qa, scheduled_task, text_summary, format_conversion],
       forceCerebrumFor =
         [code_generation, complex_analysis, multi_step_planning, creative_writing,
          debugging, research],
       stats = \<lparr> StatsConfig.enabled = True, logPath = js ''~/.openclaw/cerebellum-stats.json'' \<rparr> \<rparr>"

section \<open>Task evaluator (task-evaluator.ts)\<close>

text \<open>
  A \<^verbatim>\<open>TaskEvaluator\<close> holds the configuration it was built with and never assigns
  to a field after construction; its methods read no clock and no random source. So each
  method is a function of that configuration and of its arguments
  (\<^verbatim>\<open>this.thresholds\<close> is \<^verbatim>\<open>config.thresholds\<close>).
\<close>

definition taskTypeName :: "TaskType \<Rightarrow> string" where
  "taskTypeName ty = (case ty of
       greeting \<Rightarrow> ''greeting'' | status_check \<Rightarrow> ''status_check''
     | simple_qa \<Rightarrow> ''simple_qa'' | scheduled_task \<Rightarrow> ''scheduled_task''
     | text_summary \<Rightarrow> ''text_summary'' | format_conversion \<Rightarrow> ''format_conversion''
     | code_generation \<Rightarrow> ''code_generation'' | complex_analysis \<Rightarrow> ''complex_analysis''
     | multi_step_planning \<Rightarrow> ''multi_step_planning''
     | creative_writing \<Rightarrow> ''creative_writing'' | debugging \<Rightarrow> ''debugging''
     | research \<Rightarrow> ''research'' | keyword_triggered \<Rightarrow> ''keyword_triggered''
     | unknown \<Rightarrow> ''unknown'')"

text \<open>The double quote of a template literal.\<close>

definition dquote :: string where
  "dquote = [CHR 0x22]"

text \<open>The assessment that the marker rules and the prefix rule return.\<close>

definition keywordAssessment :: "string \<Rightarrow> TaskInfo \<Rightarrow> TaskAssessment" where
  "keywordAssessment why task =
     \<lparr> useCerebellum = True, confidence = 1, reason = [Lit why],
       taskType = keyword_triggered,
       estimatedTokens = TaskInfo.estimatedTokens task,
       estimatedTime = 30, complexity = 2, precisionRequirement = low \<rparr>"

text \<open>
  The trigger prefixes. Two of them are not ASCII: the two-character word at code
  units 23567, 33041 (U+5C0F U+8111) and \<open>cb\<close> followed by the full-width comma 65292
  (U+FF0C).
\<close>

definition hasTriggerPrefix :: "jsstring \<Rightarrow> bool" where
  "hasTriggerPrefix promptLower \<longleftrightarrow>
     startsWith promptLower [23567, 33041] \<or>
     startsWith promptLower (js ''cerebellum'') \<or>
     startsWith promptLower (js ''cb '') \<or>
     startsWith promptLower (js ''cb'' @ [65292]) \<or>
     startsWith promptLower (js ''cb,'')"

text \<open>The part of \<^verbatim>\<open>checkForcedRules\<close> after the marker check: rule 2 and the two lists.\<close>

definition checkPrefixAndLists ::
  "(jsstring \<Rightarrow> jsstring) \<Rightarrow> CerebellumConfig \<Rightarrow> TaskInfo \<Rightarrow> TaskAssessment option" where
  "checkPrefixAndLists toLowerCase cfg task =
     (let promptLower = toLowerCase (trim (prompt task)) in
      if hasTriggerPrefix promptLower then
        Some (keywordAssessment
          ''Triggered by keyword: <U+5C0F><U+8111>/Cerebellum/cb prefix'' task)
      else if type task \<in> set (forceCerebellumFor cfg) then
        Some \<lparr> useCerebellum = True, confidence = 1,
               reason = [Lit ''Task type '', Lit dquote, Lit (taskTypeName (type task)),
                         Lit dquote, Lit '' is in forceCerebellumFor list''],
               taskType = type task,
               estimatedTokens = TaskInfo.estimatedTokens task,
               estimatedTime = 30, complexity = 2, precisionRequirement = low \<rparr>
      else if type task \<in> set (forceCerebrumFor cfg) then
        Some \<lparr> useCerebellum = False, confidence = 1,
               reason = [Lit ''Task type '', Lit dquote, Lit (taskTypeName (type task)),
                         Lit dquote, Lit '' is in forceCerebrumFor list''],
               taskType = type task,
               estimatedTokens = TaskInfo.estimatedTokens task,
               estimatedTime = 300, complexity = 8, precisionRequirement = high \<rparr>
      else None)"

definition checkForcedRules ::
  "(jsstring \<Rightarrow> jsstring) \<Rightarrow> CerebellumConfig \<Rightarrow> TaskInfo \<Rightarrow> TaskAssessment option" where
  "checkForcedRules toLowerCase cfg task =
     (let cbStartMatch = matchIndex (js ''<cb>'') (prompt task);
          cbEndMatch = matchIndex (js ''</cb>'') (prompt task)
      in case (cbStartMatch, cbEndMatch) of
           (Some startMatchIndex, Some endIndex) \<Rightarrow>
             (let startIndex = startMatchIndex + 4 in
              if startIndex < endIndex then
                Some (keywordAssessment
                  ''Full Cerebellum Mode: processing content within <cb>...</cb> tags'' task)
              else checkPrefixAndLists toLowerCase cfg task)
         | (Some startMatchIndex, None) \<Rightarrow>
             Some (keywordAssessment
               ''Full Cerebellum Mode: <cb> tag detected, all content processed by cerebellum''
               task)
         | (None, _) \<Rightarrow> checkPrefixAndLists toLowerCase cfg task)"

text \<open>The result of \<^verbatim>\<open>analyzeTask\<close>.\<close>

record TaskAnalysis =
  hasCode :: bool
  hasMath :: bool
  hasCreative :: bool
  hasAnalysis :: bool
  hasPlanning :: bool
  isGreeting :: bool
  isStatusQuery :: bool
  detectedType :: TaskType
  promptLength :: nat

definition codeKeywords :: "string list" where
  "codeKeywords = [''code'', ''program'', ''function'', ''class'', ''debug'', ''error'',
     ''bug'', ''implement'', ''algorithm'', ''data structure'', ''api'', ''database'',
     ''refactor'', ''optimize'', ''performance'']"

definition mathKeywords :: "string list" where
  "mathKeywords = [''calculate'', ''compute'', ''math'', ''equation'', ''formula'',
     ''solve'', ''statistics'', ''probability'', ''algebra'', ''calculus'', ''geometry'']"

definition creativeKeywords :: "string list" where
  "creativeKeywords = [''write'', ''story'', ''creative'', ''poem'', ''essay'', ''article'',
     ''blog'', ''content'', ''marketing'', ''copy'', ''fiction'']"

definition analysisKeywords :: "string list" where
  "analysisKeywords = [''analyze'', ''analysis'', ''research'', ''investigate'', ''study'',
     ''review'', ''evaluate'', ''assess'', ''compare'', ''contrast'', ''synthesize'',
     ''critique'']"

definition planningKeywords :: "string list" where
  "planningKeywords = [''plan'', ''strategy'', ''roadmap'', ''schedule'', ''timeline'',
     ''project'', ''steps'', ''phases'', ''milestone'', ''goal'']"

definition greetingKeywords :: "string list" where
  "greetingKeywords = [''hello'', ''hi'', ''hey'', ''good morning'', ''good afternoon'',
     ''good evening'', ''how are you'', ''what'' @ [CHR 0x27] @ ''s up'', ''greetings'']"

definition statusKeywords :: "string list" where
  "statusKeywords = [''status'', ''check'', ''health'', ''state'', ''condition'',
     ''progress'', ''update'', ''report'', ''summary'']"

text \<open>\<^verbatim>\<open>keywords.some((kw) => prompt.includes(kw))\<close>\<close>

definition someIncluded :: "string list \<Rightarrow> jsstring \<Rightarrow> bool" where
  "someIncluded keywords p = list_ex (\<lambda>kw. js_includes p (js kw)) keywords"

text \<open>The chain of conditions that picks \<^verbatim>\<open>detectedType\<close>, first match first.\<close>

definition detectType ::
  "bool \<Rightarrow> bool \<Rightarrow> bool \<Rightarrow> bool \<Rightarrow> bool \<Rightarrow> bool \<Rightarrow> bool \<Rightarrow> bool \<Rightarrow> nat \<Rightarrow> TaskType" where
  "detectType code math creative analysis planning greet status scheduled len =
     (if greet \<and> len < 50 then greeting
      else if status \<and> len < 100 then status_check
      else if code then code_generation
      else if math then (if scheduled then scheduled_task else complex_analysis)
      else if planning \<and> len > 200 then multi_step_planning
      else if creative \<and> len > 150 then creative_writing
      else if analysis \<and> len > 300 then complex_analysis
      else if len < 150 \<and> \<not> code \<and> \<not> math then simple_qa
      else if scheduled then scheduled_task
      else unknown)"

definition analyzeTask :: "(jsstring \<Rightarrow> jsstring) \<Rightarrow> TaskInfo \<Rightarrow> TaskAnalysis" where
  "analyzeTask toLowerCase task =
     (let p = toLowerCase (prompt task);
          len = length (prompt task);
          code = (someIncluded codeKeywords p \<or> TaskInfo.hasCode task);
          math = (someIncluded mathKeywords p \<or> TaskInfo.hasMath task);
          creative = someIncluded creativeKeywords p;
          analysis = someIncluded analysisKeywords p;
          planning = someIncluded planningKeywords p;
          greet = someIncluded greetingKeywords p;
          status = someIncluded statusKeywords p
      in \<lparr> hasCode = code, hasMath = math, hasCreative = creative, hasAnalysis = analysis,
           hasPlanning = planning, isGreeting = greet, isStatusQuery = status,
           detectedType = detectType code math creative analysis planning greet status
                            (isScheduledTask task) len,
           promptLength = len \<rparr>)"

text \<open>
  The table \<^verbatim>\<open>typeComplexity\<close> has no entry for \<^verbatim>\<open>keyword_triggered\<close>; the
  lookup \<^verbatim>\<open>typeComplexity[t] ?? 5\<close> gives 5 there.
\<close>

definition typeComplexity :: "TaskType \<Rightarrow> int" where
  "typeComplexity ty = (case ty of
       greeting \<Rightarrow> 1 | status_check \<Rightarrow> 2 | simple_qa \<Rightarrow> 2 | scheduled_task \<Rightarrow> 3
     | text_summary \<Rightarrow> 3 | format_conversion \<Rightarrow> 2 | code_generation \<Rightarrow> 8
     | complex_analysis \<Rightarrow> 7 | multi_step_planning \<Rightarrow> 8 | creative_writing \<Rightarrow> 6
     | debugging \<Rightarrow> 7 | research \<Rightarrow> 8 | unknown \<Rightarrow> 5 | keyword_triggered \<Rightarrow> 5)"

definition calculateComplexity :: "TaskInfo \<Rightarrow> TaskAnalysis \<Rightarrow> int" where
  "calculateComplexity task analysis =
     (let c0 = typeComplexity (detectedType analysis);
          c1 = (if promptLength analysis > 2000 then c0 + 1 else c0);
          c2 = (if promptLength analysis > 5000 then c1 + 1 else c1);
          c3 = (if TaskAnalysis.hasCode analysis then c2 + 1 else c2);
          c4 = (if TaskAnalysis.hasMath analysis then c3 + 1 else c3);
          c5 = (if historyLength task > 10 then c4 + 1 else c4);
          c6 = (if historyLength task > 30 then c5 + 1 else c5);
          c7 = (if TaskInfo.estimatedTokens task > 2000 then c6 + 1 else c6);
          c8 = (if TaskInfo.estimatedTokens task > 4000 then c7 + 1 else c7)
      in min 10 (max 1 c8))"

definition assessPrecisionRequirement :: "TaskInfo \<Rightarrow> TaskAnalysis \<Rightarrow> Precision" where
  "assessPrecisionRequirement task analysis =
     (if TaskAnalysis.hasCode analysis \<or> TaskAnalysis.hasMath analysis then high
      else if hasAnalysis analysis \<or> hasCreative analysis then medium
      else if type task = simple_qa \<or> type task = greeting then low
      else medium)"

text \<open>
  \<^verbatim>\<open>Math.round\<close> returns the integer nearest to its argument, a half going up, as
  \<open>round\<close> does. The sum and the two products before it are double operations.
\<close>

definition estimateExecutionTime :: "CerebellumConfig \<Rightarrow> TaskInfo \<Rightarrow> int \<Rightarrow> int" where
  "estimateExecutionTime cfg task c =
     (let t0 = fl (real_of_int c * 30);
          t1 = (if TaskInfo.estimatedTokens task > 1000
                then fl (t0 + fl (fl (TaskInfo.estimatedTokens task / 1000) * 60)) else t0);
          t2 = (if CerebellumConfig.enabled cfg then fl (t1 * fl 0.6) else t1)
      in round t2)"

text \<open>
  Each step adds a decimal literal in double arithmetic, so \<^verbatim>\<open>0.5 + 0.2 + 0.1\<close> is
  the double below \<open>0.8\<close>, not \<open>0.8\<close>.
\<close>

definition calculateConfidence :: "TaskInfo \<Rightarrow> TaskAnalysis \<Rightarrow> int \<Rightarrow> real" where
  "calculateConfidence task analysis c =
     (let k0 = 0.5;
          k1 = (if detectedType analysis \<noteq> unknown then fl (k0 + fl 0.2) else k0);
          k2 = (if c \<le> 3 then fl (k1 + fl 0.2) else if c \<ge> 8 then fl (k1 - fl 0.1) else k1);
          k3 = (if promptLength analysis < 100 then fl (k2 + fl 0.1) else k2);
          k4 = (if isHighFrequency task then fl (k3 + fl 0.1) else k3)
      in min 1 (max 0 k4))"

definition shouldUseCerebellum ::
  "CerebellumConfig \<Rightarrow> TaskInfo \<Rightarrow> int \<Rightarrow> Precision \<Rightarrow> int \<Rightarrow> real \<Rightarrow> bool" where
  "shouldUseCerebellum cfg task c prec time conf =
     (if real_of_int c > maxComplexity (thresholds cfg) then False
      else if real_of_int time > maxEstimatedTime (thresholds cfg) then False
      else if conf < minConfidence (thresholds cfg) then False
      else if prec = high then False
      else if isScheduledTask task \<and> time < 600 then True
      else if isHighFrequency task \<and> c \<le> 3 then True
      else c \<le> 5)"

text \<open>\<^verbatim>\<open>reasons.join(", ")\<close> on the pieces.\<close>

fun join :: "piece list list \<Rightarrow> piece list" where
  "join [] = []"
| "join [r] = r"
| "join (r # rs) = r @ Lit '', '' # join rs"

definition generateReason ::
  "CerebellumConfig \<Rightarrow> bool \<Rightarrow> TaskInfo \<Rightarrow> int \<Rightarrow> Precision \<Rightarrow> int \<Rightarrow> real \<Rightarrow> piece list" where
  "generateReason cfg use task c prec time conf =
     (if use then
        (let reasons =
               (if c \<le> 3 then [[Lit ''low complexity'']] else [])
             @ (if isScheduledTask task \<and> time < 600
                then [[Lit ''scheduled task under 10min'']] else [])
             @ (if isHighFrequency task then [[Lit ''high frequency pattern'']] else [])
             @ (if prec = low then [[Lit ''low precision requirement'']] else [])
         in Lit ''Using cerebellum: ''
            # (if join reasons = [] then [Lit ''suitable for local model''] else join reasons))
      else
        (let reasons =
               (if real_of_int c > maxComplexity (thresholds cfg)
                then [[Lit ''high complexity ('', Num (real_of_int c), Lit ''/'',
                       Num (maxComplexity (thresholds cfg)), Lit '')'']] else [])
             @ (if real_of_int time > maxEstimatedTime (thresholds cfg)
                then [[Lit ''long execution time ('',
                       Num (real_of_int (round (fl (real_of_int time / 60)))), Lit ''min)'']]
                else [])
             @ (if prec = high then [[Lit ''high precision requirement'']] else [])
             @ (if conf < minConfidence (thresholds cfg)
                then [[Lit ''low confidence ('', Fixed2 conf, Lit '')'']] else [])
         in Lit ''Using cerebrum: ''
            # (if join reasons = [] then [Lit ''task requires cloud model''] else join reasons)))"

definition evaluate ::
  "(jsstring \<Rightarrow> jsstring) \<Rightarrow> CerebellumConfig \<Rightarrow> TaskInfo \<Rightarrow> TaskAssessment" where
  "evaluate toLowerCase cfg task =
     (case checkForcedRules toLowerCase cfg task of
        Some forcedDecision \<Rightarrow> forcedDecision
      | None \<Rightarrow>
          (let analysis = analyzeTask toLowerCase task;
               c = calculateComplexity task analysis;
               prec = assessPrecisionRequirement task analysis;
               time = estimateExecutionTime cfg task c;
               conf = calculateConfidence task analysis c;
               use = shouldUseCerebellum cfg task c prec time conf
           in \<lparr> useCerebellum = use, confidence = conf,
                reason = generateReason cfg use task c prec time conf,
                taskType = detectedType analysis,
                estimatedTokens = TaskInfo.estimatedTokens task,
                estimatedTime = time, complexity = c, precisionRequirement = prec \<rparr>))"

text \<open>
  The condition under which \<^verbatim>\<open>checkForcedRules\<close> returns from its first block:
  both markers are found and the first open marker ends strictly before the first close
  marker begins, or only the open marker is found.
\<close>

definition markerRule :: "jsstring \<Rightarrow> bool" where
  "markerRule p =
     (case (matchIndex (js ''<cb>'') p, matchIndex (js ''</cb>'') p) of
        (Some i, Some j) \<Rightarrow> i + 4 < j
      | (Some i, None) \<Rightarrow> True
      | (None, _) \<Rightarrow> False)"

text \<open>The seven keyword tests of \<^verbatim>\<open>analyzeTask\<close>, as one value.\<close>

definition keywordFlags :: "TaskAnalysis \<Rightarrow> bool \<times> bool \<times> bool \<times> bool \<times> bool \<times> bool \<times> bool" where
  "keywordFlags a =
     (TaskAnalysis.hasCode a, TaskAnalysis.hasMath a, hasCreative a, hasAnalysis a,
      hasPlanning a, isGreeting a, isStatusQuery a)"

section \<open>Responses, decisions and statistics (types.ts)\<close>

datatype Target = cerebellum | cerebrum

text \<open>
  The three fields of \<^verbatim>\<open>usage\<close> are \<^verbatim>\<open>input\<close>, \<^verbatim>\<open>output\<close> and
  \<^verbatim>\<open>total\<close>, and the first field of a response is \<^verbatim>\<open>text\<close>; they are
  renamed here because these words are reserved.
\<close>

record Usage =
  usageInput :: real
  usageOutput :: real
  usageTotal :: real

text \<open>An optional field (\<^verbatim>\<open>error?: string\<close>) is an \<open>option\<close>: \<open>None\<close> when absent.\<close>

record CerebellumResponse =
  responseText :: jsstring
  success :: bool
  error :: "jsstring option"
  model :: jsstring
  durationMs :: real
  usage :: "Usage option"

record RoutingDecision =
  target :: Target
  assessment :: TaskAssessment
  isManualOverride :: bool
  timestamp :: real

record TypeStats =
  count :: int
  successRate :: real
  averageTime :: real

text \<open>\<^verbatim>\<open>taskTypeStats\<close> is an object keyed by task type: a map.\<close>

record CerebellumStats =
  totalRequests :: int
  successfulRequests :: int
  failedRequests :: int
  averageResponseTime :: real
  tokensSaved :: real
  costSaved :: real
  taskTypeStats :: "TaskType \<rightharpoonup> TypeStats"
  lastUpdated :: jsstring

section \<open>Stats collector (stats-collector.ts)\<close>

record StatsEntry =
  timestamp :: jsstring
  target :: Target
  taskType :: TaskType
  success :: "bool option"
  error :: "jsstring option"
  durationMs :: "real option"
  tokensInput :: "real option"
  tokensOutput :: "real option"

record StatsData =
  entries :: "StatsEntry list"
  totalRequests :: int
  successfulRequests :: int
  failedRequests :: int
  totalDurationMs :: real
  tokensSaved :: real
  lastUpdated :: jsstring

definition DEFAULT_COST_PER_1K_TOKENS :: real where
  "DEFAULT_COST_PER_1K_TOKENS = fl 0.03"

text \<open>
  The collector object together with the file it owns. \<open>cache\<close> is the private field
  (\<open>None\<close> for \<^verbatim>\<open>null\<close>). \<open>logFile\<close> is what reading and parsing the file at \<open>logPath\<close>
  yields: \<open>None\<close> when the file is missing, unreadable or not JSON. \<open>writable\<close> says
  whether creating the directory and writing the file succeed; the code ignores a failure
  of either.

  Every operation takes \<open>now\<close>, the value of \<^verbatim>\<open>new Date().toISOString()\<close> during
  the call.
\<close>

record StatsCollector =
  config :: StatsConfig
  cache :: "StatsData option"
  logFile :: "StatsData option"
  writable :: bool

definition createStatsCollector ::
  "StatsConfig \<Rightarrow> StatsData option \<Rightarrow> bool \<Rightarrow> StatsCollector" where
  "createStatsCollector cfg onDisk canWrite =
     \<lparr> config = cfg, cache = None, logFile = onDisk, writable = canWrite \<rparr>"

definition emptyData :: "jsstring \<Rightarrow> StatsData" where
  "emptyData now =
     \<lparr> entries = [], StatsData.totalRequests = 0, StatsData.successfulRequests = 0,
       StatsData.failedRequests = 0, totalDurationMs = 0, StatsData.tokensSaved = 0,
       StatsData.lastUpdated = now \<rparr>"

definition loadData :: "jsstring \<Rightarrow> StatsCollector \<Rightarrow> StatsData \<times> StatsCollector" where
  "loadData now s =
     (case cache s of
        Some data \<Rightarrow> (data, s)
      | None \<Rightarrow>
          (case logFile s of
             Some data \<Rightarrow> (data, s\<lparr>cache := Some data\<rparr>)
           | None \<Rightarrow> (emptyData now, s\<lparr>cache := Some (emptyData now)\<rparr>)))"

definition saveData :: "jsstring \<Rightarrow> StatsData \<Rightarrow> StatsCollector \<Rightarrow> StatsCollector" where
  "saveData now data s =
     (if \<not> StatsConfig.enabled (config s) then s
      else
        (let data' = data\<lparr>StatsData.lastUpdated := now\<rparr> in
         s\<lparr>cache := Some data', logFile := (if writable s then Some data' else logFile s)\<rparr>))"

text \<open>\<^verbatim>\<open>xs.slice(-n)\<close>: the last \<open>n\<close> elements, all of them when there are fewer.\<close>

definition sliceLast :: "nat \<Rightarrow> 'a list \<Rightarrow> 'a list" where
  "sliceLast n xs = drop (length xs - n) xs"

definition newEntry :: "jsstring \<Rightarrow> RoutingDecision \<Rightarrow> StatsEntry" where
  "newEntry now decision =
     \<lparr> StatsEntry.timestamp = now, StatsEntry.target = RoutingDecision.target decision,
       StatsEntry.taskType = TaskAssessment.taskType (assessment decision),
       StatsEntry.success = None, StatsEntry.error = None, StatsEntry.durationMs = None,
       tokensInput = None, tokensOutput = None \<rparr>"

definition recordDecision ::
  "jsstring \<Rightarrow> RoutingDecision \<Rightarrow> StatsCollector \<Rightarrow> StatsCollector" where
  "recordDecision now decision s =
     (if \<not> StatsConfig.enabled (config s) then s
      else
        (let (data, s1) = loadData now s;
             data1 = data\<lparr>entries := entries data @ [newEntry now decision]\<rparr>;
             data2 = data1\<lparr>StatsData.totalRequests := StatsData.totalRequests data1 + 1\<rparr>;
             data3 = (if length (entries data2) > 10000
                      then data2\<lparr>entries := sliceLast 5000 (entries data2)\<rparr> else data2)
         in saveData now data3 s1))"

text \<open>
  \<^verbatim>\<open>data.entries[data.entries.length - 1]\<close> is \<^verbatim>\<open>undefined\<close> on an empty list,
  and then nothing is back-filled. The update is applied to the last entry when it exists
  and its target is the cerebellum.
\<close>

definition updateLastEntry ::
  "(StatsEntry \<Rightarrow> StatsEntry) \<Rightarrow> StatsEntry list \<Rightarrow> StatsEntry list" where
  "updateLastEntry f es =
     (if es \<noteq> [] \<and> StatsEntry.target (last es) = cerebellum
      then butlast es @ [f (last es)] else es)"

definition recordSuccess ::
  "jsstring \<Rightarrow> TaskInfo \<Rightarrow> CerebellumResponse \<Rightarrow> StatsCollector \<Rightarrow> StatsCollector" where
  "recordSuccess now task response s =
     (if \<not> StatsConfig.enabled (config s) then s
      else
        (let (data, s1) = loadData now s;
             data1 = data\<lparr>StatsData.successfulRequests := StatsData.successfulRequests data + 1\<rparr>;
             data2 = data1\<lparr>totalDurationMs :=
                       fl (totalDurationMs data1 + CerebellumResponse.durationMs response)\<rparr>;
             data3 = (case usage response of
                        Some u \<Rightarrow> data2\<lparr>StatsData.tokensSaved :=
                                   fl (StatsData.tokensSaved data2 + usageTotal u)\<rparr>
                      | None \<Rightarrow> data2);
             data4 = data3\<lparr>entries := updateLastEntry
                       (\<lambda>e. e\<lparr>StatsEntry.success := Some True,
                              StatsEntry.durationMs := Some (CerebellumResponse.durationMs response),
                              tokensInput := map_option usageInput (usage response),
                              tokensOutput := map_option usageOutput (usage response)\<rparr>)
                       (entries data3)\<rparr>
         in saveData now data4 s1))"

definition recordFailure ::
  "jsstring \<Rightarrow> TaskInfo \<Rightarrow> jsstring option \<Rightarrow> StatsCollector \<Rightarrow> StatsCollector" where
  "recordFailure now task err s =
     (if \<not> StatsConfig.enabled (config s) then s
      else
        (let (data, s1) = loadData now s;
             data1 = data\<lparr>StatsData.failedRequests := StatsData.failedRequests data + 1\<rparr>;
             data2 = data1\<lparr>entries := updateLastEntry
                       (\<lambda>e. e\<lparr>StatsEntry.success := Some False, StatsEntry.error := err\<rparr>)
                       (entries data1)\<rparr>
         in saveData now data2 s1))"

text \<open>The accumulator of the first loop of \<^verbatim>\<open>getStats\<close>, for one task type.\<close>

record TypeAcc =
  count :: int
  successCount :: int
  totalTime :: real

definition addEntry :: "(TaskType \<rightharpoonup> TypeAcc) \<Rightarrow> StatsEntry \<Rightarrow> (TaskType \<rightharpoonup> TypeAcc)" where
  "addEntry acc entry =
     (let a0 = (case acc (StatsEntry.taskType entry) of
                  Some a \<Rightarrow> a
                | None \<Rightarrow> \<lparr> TypeAcc.count = 0, successCount = 0, totalTime = 0 \<rparr>);
          a1 = a0\<lparr>TypeAcc.count := TypeAcc.count a0 + 1\<rparr>;
          a2 = (if StatsEntry.success entry = Some True
                then a1\<lparr>successCount := successCount a1 + 1,
                        totalTime := fl (totalTime a1
                          + (case StatsEntry.durationMs entry of Some d \<Rightarrow> d | None \<Rightarrow> 0))\<rparr>
                else a1)
      in acc(StatsEntry.taskType entry \<mapsto> a2))"

definition formatAcc :: "TypeAcc \<Rightarrow> TypeStats" where
  "formatAcc a =
     \<lparr> TypeStats.count = TypeAcc.count a,
       successRate = (if TypeAcc.count a > 0
                      then fl (real_of_int (successCount a) / real_of_int (TypeAcc.count a))
                      else 0),
       averageTime = (if successCount a > 0
                      then fl (totalTime a / real_of_int (successCount a)) else 0) \<rparr>"

definition getStats :: "jsstring \<Rightarrow> StatsCollector \<Rightarrow> CerebellumStats \<times> StatsCollector" where
  "getStats now s =
     (let (data, s1) = loadData now s;
          acc = foldl addEntry Map.empty (entries data);
          formattedTaskTypeStats = map_option formatAcc \<circ> acc;
          averageResponseTime' =
            (if StatsData.successfulRequests data > 0
             then fl (totalDurationMs data / real_of_int (StatsData.successfulRequests data))
             else 0);
          costSaved' = fl (fl (StatsData.tokensSaved data / 1000) * DEFAULT_COST_PER_1K_TOKENS)
      in (\<lparr> CerebellumStats.totalRequests = StatsData.totalRequests data,
            CerebellumStats.successfulRequests = StatsData.successfulRequests data,
            CerebellumStats.failedRequests = StatsData.failedRequests data,
            averageResponseTime = averageResponseTime',
            CerebellumStats.tokensSaved = StatsData.tokensSaved data,
            costSaved = costSaved',
            taskTypeStats = formattedTaskTypeStats,
            CerebellumStats.lastUpdated = StatsData.lastUpdated data \<rparr>, s1))"

definition reset :: "jsstring \<Rightarrow> StatsCollector \<Rightarrow> StatsCollector" where
  "reset now s = saveData now (emptyData now) s"

text \<open>A sequence of \<^verbatim>\<open>recordDecision\<close> calls, each with its clock reading.\<close>

fun recordDecisions ::
  "(jsstring \<times> RoutingDecision) list \<Rightarrow> StatsCollector \<Rightarrow> StatsCollector" where
  "recordDecisions [] s = s"
| "recordDecisions ((now, decision) # rest) s = recordDecisions rest (recordDecision now decision s)"

text \<open>
  The data the collector works on: what \<^verbatim>\<open>loadData\<close> returns, that is the cache,
  else the content of the file, else the empty data.
\<close>

definition stored :: "jsstring \<Rightarrow> StatsCollector \<Rightarrow> StatsData" where
  "stored now s = fst (loadData now s)"

section \<open>Local backend client (cerebellum-kernel.ts)\<close>

text \<open>
  The client talks to the local service through \<^verbatim>\<open>fetch\<close>. What the service and
  the network do is an input of the model. A promise either rejects with a thrown value or
  resolves; of a thrown value the code uses only
  \<^verbatim>\<open>error instanceof Error ? error.message : String(error)\<close>.
\<close>

datatype thrown = ErrorInstance jsstring | OtherValue jsstring

definition thrownMessage :: "thrown \<Rightarrow> jsstring" where
  "thrownMessage e = (case e of ErrorInstance message \<Rightarrow> message | OtherValue shown \<Rightarrow> shown)"

datatype 'a settled = Rejected thrown | Resolved 'a

record GenerateOptions =
  temperature :: "real option"
  maxTokens :: "real option"

record OllamaOptions =
  temperature :: real
  num_predict :: real
  top_p :: real
  top_k :: real

record OllamaGenerateRequest =
  model :: jsstring
  prompt :: jsstring
  system :: "jsstring option"
  stream :: bool
  options :: OllamaOptions

text \<open>
  The fields of the JSON answer that the code reads. Each is read with a default
  (\<^verbatim>\<open>data.response ?? ""\<close>), so each may be absent.
\<close>

record OllamaGenerateResponse =
  model :: "jsstring option"
  response :: "jsstring option"
  prompt_eval_count :: "real option"
  eval_count :: "real option"

text \<open>
  The answer to \<^verbatim>\<open>GET /api/tags\<close>: the \<^verbatim>\<open>ok\<close> flag and what
  \<^verbatim>\<open>response.json()\<close> settles to, reduced to the model names. The answer to
  \<^verbatim>\<open>POST /api/generate\<close>: the flag and what \<^verbatim>\<open>response.text()\<close> and
  \<^verbatim>\<open>response.json()\<close> settle to. A body that parses but is not an object of
  the expected shape makes the code throw when it reads a field, inside the same
  \<^verbatim>\<open>try\<close>; that case is a rejection here.
\<close>

record TagsReply =
  ok :: bool
  modelNames :: "jsstring list settled"

record GenerateReply =
  ok :: bool
  bodyText :: "jsstring settled"
  bodyJson :: "OllamaGenerateResponse settled"

text \<open>
  One call of \<^verbatim>\<open>generate\<close> makes up to three requests: the availability probe, the
  model listing and the generation. \<open>elapsed\<close> is \<^verbatim>\<open>Date.now() - startTime\<close> when
  the call returns.
\<close>

record Network =
  tagsProbe :: "TagsReply settled"
  tagsList :: "TagsReply settled"
  postGenerate :: "OllamaGenerateRequest \<Rightarrow> GenerateReply settled"
  elapsed :: real

definition isAvailable :: "Network \<Rightarrow> bool" where
  "isAvailable net =
     (case tagsProbe net of Rejected e \<Rightarrow> False | Resolved reply \<Rightarrow> TagsReply.ok reply)"

definition isModelAvailable :: "CerebellumConfig \<Rightarrow> Network \<Rightarrow> jsstring option \<Rightarrow> bool" where
  "isModelAvailable cfg net modelName =
     (let targetModel = (case modelName of Some m \<Rightarrow> m | None \<Rightarrow> CerebellumConfig.model cfg) in
      case tagsList net of
        Rejected e \<Rightarrow> False
      | Resolved reply \<Rightarrow>
          if \<not> TagsReply.ok reply then False
          else (case modelNames reply of
                  Rejected e \<Rightarrow> False
                | Resolved names \<Rightarrow>
                    list_ex (\<lambda>name. name = targetModel \<or> startsWith name (targetModel @ js '':''))
                      names))"

text \<open>The object literal returned on each failure path.\<close>

definition failure :: "CerebellumConfig \<Rightarrow> Network \<Rightarrow> jsstring \<Rightarrow> CerebellumResponse" where
  "failure cfg net message =
     \<lparr> responseText = [], CerebellumResponse.success = False,
       CerebellumResponse.error = Some message,
       CerebellumResponse.model = CerebellumConfig.model cfg,
       CerebellumResponse.durationMs = elapsed net, usage = None \<rparr>"

definition apostrophe :: string where
  "apostrophe = [CHR 0x27]"

definition newline :: string where
  "newline = [CHR 0x0A]"

text \<open>The request object that \<^verbatim>\<open>generate\<close> builds; an empty system prompt is not sent.\<close>

definition generateRequest ::
  "CerebellumConfig \<Rightarrow> jsstring \<Rightarrow> jsstring option \<Rightarrow> GenerateOptions option
     \<Rightarrow> OllamaGenerateRequest" where
  "generateRequest cfg prompt' systemPrompt options' =
     (let request =
            \<lparr> OllamaGenerateRequest.model = CerebellumConfig.model cfg,
              OllamaGenerateRequest.prompt = prompt',
              system = None, stream = False,
              options =
                \<lparr> OllamaOptions.temperature =
                    (case Option.bind options' GenerateOptions.temperature of
                       Some t \<Rightarrow> t | None \<Rightarrow> fl 0.7),
                  num_predict =
                    (case Option.bind options' maxTokens of Some n \<Rightarrow> n | None \<Rightarrow> 2048),
                  top_p = fl 0.9, top_k = 40 \<rparr> \<rparr>
      in case systemPrompt of
           Some sp \<Rightarrow> if sp \<noteq> [] then request\<lparr>system := Some sp\<rparr> else request
         | None \<Rightarrow> request)"

text \<open>The object literal returned when the generation request succeeds.\<close>

definition generated :: "CerebellumConfig \<Rightarrow> Network \<Rightarrow> OllamaGenerateResponse \<Rightarrow> CerebellumResponse" where
  "generated cfg net data =
     (let promptTokens = (case prompt_eval_count data of Some n \<Rightarrow> n | None \<Rightarrow> 0);
          evalTokens = (case eval_count data of Some n \<Rightarrow> n | None \<Rightarrow> 0)
      in \<lparr> responseText = (case response data of Some t \<Rightarrow> t | None \<Rightarrow> []),
           CerebellumResponse.success = True,
           CerebellumResponse.error = None,
           CerebellumResponse.model =
             (case OllamaGenerateResponse.model data of
                Some m \<Rightarrow> m | None \<Rightarrow> CerebellumConfig.model cfg),
           CerebellumResponse.durationMs = elapsed net,
           usage = Some \<lparr> usageInput = promptTokens, usageOutput = evalTokens,
                          usageTotal = fl (promptTokens + evalTokens) \<rparr> \<rparr>)"

definition generate ::
  "CerebellumConfig \<Rightarrow> Network \<Rightarrow> jsstring \<Rightarrow> jsstring option \<Rightarrow> GenerateOptions option
     \<Rightarrow> CerebellumResponse" where
  "generate cfg net prompt' systemPrompt options' =
     (if \<not> isAvailable net then
        failure cfg net
          (js ''Ollama service is not available. Please ensure Ollama is running.'')
      else if \<not> isModelAvailable cfg net None then
        failure cfg net
          (js ''Model '' @ CerebellumConfig.model cfg @ js '' is not available. Run ''
           @ js apostrophe @ js ''ollama pull '' @ CerebellumConfig.model cfg @ js apostrophe
           @ js '' first.'')
      else
        (case postGenerate net (generateRequest cfg prompt' systemPrompt options') of
           Rejected e \<Rightarrow> failure cfg net (thrownMessage e)
         | Resolved reply \<Rightarrow>
             if \<not> GenerateReply.ok reply then
               (case bodyText reply of
                  Rejected e \<Rightarrow> failure cfg net (thrownMessage e)
                | Resolved errorText \<Rightarrow> failure cfg net (js ''Ollama API error: '' @ errorText))
             else
               (case bodyJson reply of
                  Rejected e \<Rightarrow> failure cfg net (thrownMessage e)
                | Resolved data \<Rightarrow> generated cfg net data)))"

definition quickAnswer :: "CerebellumConfig \<Rightarrow> Network \<Rightarrow> jsstring \<Rightarrow> CerebellumResponse" where
  "quickAnswer cfg net question =
     generate cfg net question
       (Some (js (''You are a helpful assistant. Provide concise, accurate answers. '' @ newline
                  @ ''Keep responses brief and to the point. If you'' @ apostrophe
                  @ ''re unsure, say so.'')))
       (Some \<lparr> GenerateOptions.temperature = Some 0.5, maxTokens = Some 512 \<rparr>)"

text \<open>
  The decimal digits of a natural number, for \<^verbatim>\<open>${maxSentences}\<close>. The sentence
  count is a natural number here.
\<close>

function showNat :: "nat \<Rightarrow> string" where
  "showNat n =
     (if n < 10 then [char_of (48 + n)] else showNat (n div 10) @ [char_of (48 + n mod 10)])"
  by pat_completeness auto
termination
  by (relation "measure id") auto

definition summarize ::
  "CerebellumConfig \<Rightarrow> Network \<Rightarrow> jsstring \<Rightarrow> nat option \<Rightarrow> CerebellumResponse" where
  "summarize cfg net text' maxLength =
     (let maxSentences = (case maxLength of Some n \<Rightarrow> n | None \<Rightarrow> 3);
          prompt' = js ''Please summarize the following text in '' @ js (showNat maxSentences)
                    @ js ('' sentences or less:'' @ newline @ newline) @ text'
                    @ js (newline @ newline @ ''Summary:'')
      in generate cfg net prompt' None
           (Some \<lparr> GenerateOptions.temperature = Some (fl 0.3), maxTokens = Some 256 \<rparr>))"

datatype Format = json | yaml | markdown | csv

definition formatUpper :: "Format \<Rightarrow> string" where
  "formatUpper f = (case f of json \<Rightarrow> ''JSON'' | yaml \<Rightarrow> ''YAML''
                    | markdown \<Rightarrow> ''MARKDOWN'' | csv \<Rightarrow> ''CSV'')"

definition convertFormat ::
  "CerebellumConfig \<Rightarrow> Network \<Rightarrow> jsstring \<Rightarrow> Format \<Rightarrow> CerebellumResponse" where
  "convertFormat cfg net content targetFormat =
     (let prompt' = js ''Convert the following content to '' @ js (formatUpper targetFormat)
                    @ js ('' format:'' @ newline @ newline) @ content
                    @ js (newline @ newline @ ''Converted '') @ js (formatUpper targetFormat)
                    @ js '':''
      in generate cfg net prompt' None
           (Some \<lparr> GenerateOptions.temperature = Some (fl 0.2), maxTokens = Some 1024 \<rparr>))"

text \<open>
  The shape of a response: a failed one has empty text and an error, a successful one has
  no error field.
\<close>

definition wellFormedResponse :: "CerebellumResponse \<Rightarrow> bool" where
  "wellFormedResponse r \<longleftrightarrow>
     (\<not> CerebellumResponse.success r \<longrightarrow>
        responseText r = [] \<and> CerebellumResponse.error r \<noteq> None)
     \<and> (CerebellumResponse.success r \<longrightarrow> CerebellumResponse.error r = None)"

text \<open>The error field is present and not the empty string.\<close>

definition nonEmptyError :: "CerebellumResponse \<Rightarrow> bool" where
  "nonEmptyError r \<longleftrightarrow> (case CerebellumResponse.error r of Some e \<Rightarrow> e \<noteq> [] | None \<Rightarrow> False)"

text \<open>
  An assumption on the host, not on the code: whatever the generation request or the
  reading of its body throws has a non-empty message.
\<close>

definition descriptiveErrors :: "Network \<Rightarrow> bool" where
  "descriptiveErrors net \<longleftrightarrow>
     (\<forall>request.
        case postGenerate net request of
          Rejected e \<Rightarrow> thrownMessage e \<noteq> []
        | Resolved reply \<Rightarrow>
            (case bodyText reply of Rejected e \<Rightarrow> thrownMessage e \<noteq> [] | Resolved v \<Rightarrow> True)
            \<and> (case bodyJson reply of Rejected e \<Rightarrow> thrownMessage e \<noteq> [] | Resolved v \<Rightarrow> True))"

section \<open>Router (router.ts)\<close>

text \<open>
  A callback is an optional function of the caller with effects of its own: it is a
  function on a state \<open>'u\<close> of the caller, \<open>None\<close> when not given.
\<close>

record 'u RouterCallbacks =
  onRoutingDecision :: "(RoutingDecision \<Rightarrow> 'u \<Rightarrow> 'u) option"
  onCerebellumSuccess :: "(CerebellumResponse \<Rightarrow> TaskInfo \<Rightarrow> 'u \<Rightarrow> 'u) option"
  onCerebellumFailure :: "(jsstring \<Rightarrow> TaskInfo \<Rightarrow> 'u \<Rightarrow> 'u) option"
  onFallbackToCerebrum :: "(jsstring \<Rightarrow> TaskInfo \<Rightarrow> 'u \<Rightarrow> 'u) option"

record 'u RouterOptions =
  config :: CerebellumConfig
  callbacks :: "'u RouterCallbacks option"
  enableFallback :: "bool option"

text \<open>
  The router object. The kernel and the evaluator it holds are determined by \<open>config\<close>;
  \<open>stats\<close> is its collector, with the file the collector owns.
\<close>

record 'u DualKernelRouter =
  config :: CerebellumConfig
  callbacks :: "'u RouterCallbacks"
  enableFallback :: bool
  cerebellumAvailable :: bool
  stats :: StatsCollector

text \<open>
  What lies outside the router: the state the callbacks act on, and a count of the calls
  made to the local backend client, kept to say how often it is called.
\<close>

record 'u Outside =
  observer :: 'u
  kernelCalls :: nat

text \<open>
  The host during one call: \<^verbatim>\<open>Date.now()\<close>, \<^verbatim>\<open>new Date().toISOString()\<close>
  and the behaviour of the network.
\<close>

record Host =
  dateNow :: real
  isoNow :: jsstring
  network :: Network

text \<open>
  The constructor; \<open>onDisk\<close> and \<open>canWrite\<close> describe the stats file. It starts the
  availability check, whose completion is \<open>checkAvailability\<close>.
\<close>

definition createDualKernelRouter ::
  "'u RouterOptions \<Rightarrow> StatsData option \<Rightarrow> bool \<Rightarrow> 'u DualKernelRouter" where
  "createDualKernelRouter opts onDisk canWrite =
     \<lparr> DualKernelRouter.config = RouterOptions.config opts,
       DualKernelRouter.callbacks =
         (case RouterOptions.callbacks opts of
            Some cbs \<Rightarrow> cbs
          | None \<Rightarrow> \<lparr> onRoutingDecision = None, onCerebellumSuccess = None,
                      onCerebellumFailure = None, onFallbackToCerebrum = None \<rparr>),
       DualKernelRouter.enableFallback =
         (case RouterOptions.enableFallback opts of Some b \<Rightarrow> b | None \<Rightarrow> True),
       cerebellumAvailable = False,
       stats = createStatsCollector (CerebellumConfig.stats (RouterOptions.config opts))
                 onDisk canWrite \<rparr>"

definition checkAvailability :: "Network \<Rightarrow> 'u DualKernelRouter \<Rightarrow> 'u DualKernelRouter" where
  "checkAvailability net r = r\<lparr>cerebellumAvailable := isAvailable net\<rparr>"

text \<open>\<^verbatim>\<open>callback?.(args)\<close>\<close>

definition notify :: "('u \<Rightarrow> 'u) option \<Rightarrow> 'u Outside \<Rightarrow> 'u Outside" where
  "notify callback w = (case callback of Some f \<Rightarrow> w\<lparr>observer := f (observer w)\<rparr> | None \<Rightarrow> w)"

definition detectTargetFormat :: "(jsstring \<Rightarrow> jsstring) \<Rightarrow> jsstring \<Rightarrow> Format" where
  "detectTargetFormat toLowerCase prompt' =
     (let lower = toLowerCase prompt' in
      if js_includes lower (js ''json'') then json
      else if js_includes lower (js ''yaml'') \<or> js_includes lower (js ''yml'') then yaml
      else if js_includes lower (js ''csv'') then csv
      else markdown)"

definition executeWithCerebellum ::
  "(jsstring \<Rightarrow> jsstring) \<Rightarrow> CerebellumConfig \<Rightarrow> Network \<Rightarrow> TaskInfo \<Rightarrow> TaskAssessment
     \<Rightarrow> CerebellumResponse" where
  "executeWithCerebellum toLowerCase cfg net task assessment' =
     (case TaskAssessment.taskType assessment' of
        greeting \<Rightarrow> quickAnswer cfg net (TaskInfo.prompt task)
      | simple_qa \<Rightarrow> quickAnswer cfg net (TaskInfo.prompt task)
      | status_check \<Rightarrow> quickAnswer cfg net (TaskInfo.prompt task)
      | text_summary \<Rightarrow> summarize cfg net (TaskInfo.prompt task) (Some 3)
      | format_conversion \<Rightarrow>
          convertFormat cfg net (TaskInfo.prompt task)
            (detectTargetFormat toLowerCase (TaskInfo.prompt task))
      | _ \<Rightarrow> generate cfg net (TaskInfo.prompt task) None None)"

record RouteResult =
  target :: Target
  assessment :: TaskAssessment
  cerebellumResponse :: "CerebellumResponse option"
  fallbackReason :: "jsstring option"

text \<open>\<^verbatim>\<open>`Cerebellum failed: ${response.error}`\<close>: an absent error is rendered \<open>undefined\<close>.\<close>

definition fallbackMessage :: "jsstring option \<Rightarrow> jsstring" where
  "fallbackMessage err =
     js ''Cerebellum failed: '' @ (case err of Some e \<Rightarrow> e | None \<Rightarrow> js ''undefined'')"

definition routingDecision :: "Host \<Rightarrow> bool \<Rightarrow> TaskAssessment \<Rightarrow> RoutingDecision" where
  "routingDecision host useLocal assessment' =
     \<lparr> RoutingDecision.target = (if useLocal then cerebellum else cerebrum),
       RoutingDecision.assessment = assessment',
       isManualOverride = False,
       RoutingDecision.timestamp = dateNow host \<rparr>"

definition route ::
  "(jsstring \<Rightarrow> jsstring) \<Rightarrow> Host \<Rightarrow> TaskInfo \<Rightarrow> 'u DualKernelRouter \<Rightarrow> 'u Outside
     \<Rightarrow> RouteResult \<times> 'u DualKernelRouter \<times> 'u Outside" where
  "route toLowerCase host task r w =
     (let cfg = DualKernelRouter.config r;
          cbs = DualKernelRouter.callbacks r;
          assessment' = evaluate toLowerCase cfg task;
          useLocal = (useCerebellum assessment' \<and> CerebellumConfig.enabled cfg
                      \<and> cerebellumAvailable r);
          decision = routingDecision host useLocal assessment';
          w1 = notify (map_option (\<lambda>f. f decision) (onRoutingDecision cbs)) w;
          r1 = r\<lparr>stats := recordDecision (isoNow host) decision (stats r)\<rparr>
      in if useLocal then
           (let response' = executeWithCerebellum toLowerCase cfg (network host) task assessment';
                w2 = w1\<lparr>kernelCalls := kernelCalls w1 + 1\<rparr>
            in if CerebellumResponse.success response' then
                 (let r2 = r1\<lparr>stats := recordSuccess (isoNow host) task response' (stats r1)\<rparr>;
                      w3 = notify (map_option (\<lambda>f. f response' task) (onCerebellumSuccess cbs)) w2
                  in (\<lparr> RouteResult.target = cerebellum, RouteResult.assessment = assessment',
                        cerebellumResponse = Some response', fallbackReason = None \<rparr>, r2, w3))
               else
                 (let r2 = r1\<lparr>stats := recordFailure (isoNow host) task
                                          (CerebellumResponse.error response') (stats r1)\<rparr>;
                      w3 = notify (map_option
                             (\<lambda>f. f (case CerebellumResponse.error response' of
                                        Some e \<Rightarrow> e | None \<Rightarrow> js ''Unknown error'') task)
                             (onCerebellumFailure cbs)) w2
                  in if DualKernelRouter.enableFallback r then
                       (let w4 = notify (map_option
                                   (\<lambda>f. f (fallbackMessage (CerebellumResponse.error response')) task)
                                   (onFallbackToCerebrum cbs)) w3
                        in (\<lparr> RouteResult.target = cerebrum, RouteResult.assessment = assessment',
                              cerebellumResponse = None,
                              fallbackReason = CerebellumResponse.error response' \<rparr>, r2, w4))
                     else
                       (\<lparr> RouteResult.target = cerebellum, RouteResult.assessment = assessment',
                          cerebellumResponse = Some response', fallbackReason = None \<rparr>, r2, w3)))
         else
           (\<lparr> RouteResult.target = cerebrum, RouteResult.assessment = assessment',
              cerebellumResponse = None, fallbackReason = None \<rparr>, r1, w1))"

section \<open>Example inputs\<close>

text \<open>Tasks of the test suite and of the documentation, used in the concrete checks.\<close>

definition greetingTask :: TaskInfo where
  "greetingTask = \<lparr> type = greeting, TaskInfo.prompt = js ''Hello there!'', TaskInfo.hasCode = False,
     TaskInfo.hasMath = False, TaskInfo.estimatedTokens = 50, isHighFrequency = True,
     historyLength = 0, isScheduledTask = False \<rparr>"

definition codeTask :: TaskInfo where
  "codeTask = \<lparr> type = code_generation,
     TaskInfo.prompt = js ''Write a Python function to reverse a string'',
     TaskInfo.hasCode = True, TaskInfo.hasMath = False, TaskInfo.estimatedTokens = 500,
     isHighFrequency = False, historyLength = 0, isScheduledTask = False \<rparr>"

definition taggedCodeTask :: TaskInfo where
  "taggedCodeTask = \<lparr> type = code_generation,
     TaskInfo.prompt = js ''<cb>Write a Python function to calculate fibonacci</cb>'',
     TaskInfo.hasCode = True, TaskInfo.hasMath = False, TaskInfo.estimatedTokens = 500,
     isHighFrequency = False, historyLength = 0, isScheduledTask = False \<rparr>"

definition summarizeTask :: TaskInfo where
  "summarizeTask = \<lparr> type = code_generation, TaskInfo.prompt = js ''<cb>summarize this</cb>'',
     TaskInfo.hasCode = False, TaskInfo.hasMath = False, TaskInfo.estimatedTokens = 100,
     isHighFrequency = False, historyLength = 0, isScheduledTask = False \<rparr>"

definition strayCloseTask :: TaskInfo where
  "strayCloseTask = \<lparr> type = code_generation, TaskInfo.prompt = js ''</cb><cb>x</cb>'',
     TaskInfo.hasCode = False, TaskInfo.hasMath = False, TaskInfo.estimatedTokens = 100,
     isHighFrequency = False, historyLength = 0, isScheduledTask = False \<rparr>"

definition emptyTagTask :: TaskInfo where
  "emptyTagTask = \<lparr> type = unknown, TaskInfo.prompt = js ''<cb></cb>'',
     TaskInfo.hasCode = False, TaskInfo.hasMath = False, TaskInfo.estimatedTokens = 100,
     isHighFrequency = False, historyLength = 0, isScheduledTask = False \<rparr>"

definition reversedTagTask :: TaskInfo where
  "reversedTagTask = \<lparr> type = code_generation, TaskInfo.prompt = js ''</cb> then <cb>'',
     TaskInfo.hasCode = False, TaskInfo.hasMath = False, TaskInfo.estimatedTokens = 100,
     isHighFrequency = False, historyLength = 0, isScheduledTask = False \<rparr>"

definition treeTask :: TaskInfo where
  "treeTask = \<lparr> type = unknown,
     TaskInfo.prompt = js ''Implement a binary search tree with insertion and deletion'',
     TaskInfo.hasCode = True, TaskInfo.hasMath = False, TaskInfo.estimatedTokens = 1000,
     isHighFrequency = False, historyLength = 0, isScheduledTask = False \<rparr>"

definition fillerTask :: TaskInfo where
  "fillerTask = \<lparr> type = unknown, TaskInfo.prompt = replicate 1500 97,
     TaskInfo.hasCode = False, TaskInfo.hasMath = False, TaskInfo.estimatedTokens = 800,
     isHighFrequency = False, historyLength = 0, isScheduledTask = False \<rparr>"

definition vagueTask :: TaskInfo where
  "vagueTask = \<lparr> type = unknown, TaskInfo.prompt = js ''Do something'',
     TaskInfo.hasCode = False, TaskInfo.hasMath = False, TaskInfo.estimatedTokens = 100,
     isHighFrequency = False, historyLength = 0, isScheduledTask = False \<rparr>"

text \<open>Collectors, decisions and responses used in the concrete checks.\<close>

definition enabledStats :: StatsConfig where
  "enabledStats = \<lparr> StatsConfig.enabled = True, logPath = js ''~/.openclaw/cerebellum-stats.json'' \<rparr>"

definition disabledStats :: StatsConfig where
  "disabledStats = \<lparr> StatsConfig.enabled = False, logPath = js ''~/.openclaw/cerebellum-stats.json'' \<rparr>"

definition greetingDecision :: RoutingDecision where
  "greetingDecision =
     \<lparr> RoutingDecision.target = cerebellum,
       assessment = evaluate asciiLowerCase DEFAULT_CEREBELLUM_CONFIG greetingTask,
       isManualOverride = False, RoutingDecision.timestamp = 1700000000000 \<rparr>"

definition oldEntry :: StatsEntry where
  "oldEntry = \<lparr> StatsEntry.timestamp = js ''2024-01-01T00:00:00.000Z'',
     StatsEntry.target = cerebrum, StatsEntry.taskType = unknown,
     StatsEntry.success = None, StatsEntry.error = None, StatsEntry.durationMs = None,
     tokensInput = None, tokensOutput = None \<rparr>"

definition fullData :: StatsData where
  "fullData = \<lparr> entries = replicate 10000 oldEntry, StatsData.totalRequests = 25000,
     StatsData.successfulRequests = 7, StatsData.failedRequests = 3, totalDurationMs = 900,
     StatsData.tokensSaved = 1200, StatsData.lastUpdated = js ''2024-01-01T00:00:00.000Z'' \<rparr>"

definition fullCollector :: StatsCollector where
  "fullCollector = \<lparr> StatsCollector.config = enabledStats, cache = Some fullData, logFile = Some fullData,
     writable = True \<rparr>"

definition failedResponse :: CerebellumResponse where
  "failedResponse =
     \<lparr> responseText = [], CerebellumResponse.success = False,
       CerebellumResponse.error = Some (js ''Ollama service is not available. Please ensure Ollama is running.''),
       CerebellumResponse.model = js ''qwen2.5:0.5b'', CerebellumResponse.durationMs = 12,
       usage = None \<rparr>"

definition usedData :: StatsData where
  "usedData = \<lparr> entries = [oldEntry], StatsData.totalRequests = 1,
     StatsData.successfulRequests = 0, StatsData.failedRequests = 0, totalDurationMs = 0,
     StatsData.tokensSaved = 0, StatsData.lastUpdated = js ''2024-01-01T00:00:00.000Z'' \<rparr>"

definition freshDisabledCollector :: StatsCollector where
  "freshDisabledCollector = createStatsCollector disabledStats None True"

definition usedDisabledCollector :: StatsCollector where
  "usedDisabledCollector = createStatsCollector disabledStats (Some usedData) True"

definition exampleNow :: jsstring where
  "exampleNow = js ''2024-06-01T12:00:00.000Z''"

text \<open>
  Behaviours of the local service: the generation request rejects with a message, rejects
  with an empty message, or succeeds. The model is installed in all three.
\<close>

definition readyTags :: "TagsReply settled" where
  "readyTags = Resolved \<lparr> TagsReply.ok = True, modelNames = Resolved [js ''qwen2.5:0.5b''] \<rparr>"

definition failNet :: Network where
  "failNet = \<lparr> tagsProbe = readyTags, tagsList = readyTags,
     postGenerate = (\<lambda>request. Rejected (ErrorInstance (js ''fetch failed''))), elapsed = 12 \<rparr>"

definition silentNet :: Network where
  "silentNet = \<lparr> tagsProbe = readyTags, tagsList = readyTags,
     postGenerate = (\<lambda>request. Rejected (ErrorInstance [])), elapsed = 12 \<rparr>"

definition okNet :: Network where
  "okNet = \<lparr> tagsProbe = readyTags, tagsList = readyTags,
     postGenerate = (\<lambda>request. Resolved \<lparr> GenerateReply.ok = True, bodyText = Resolved [],
       bodyJson = Resolved \<lparr> OllamaGenerateResponse.model = Some (js ''qwen2.5:0.5b''),
         response = Some (js ''Paris''), prompt_eval_count = Some 9, eval_count = Some 1 \<rparr> \<rparr>),
     elapsed = 40 \<rparr>"

text \<open>
  A router under the default configuration whose availability check has succeeded, with
  no callbacks and no stats file yet, on a host whose generation request fails.
\<close>

definition failHost :: Host where
  "failHost = \<lparr> dateNow = 1717243200000, isoNow = exampleNow, network = failNet \<rparr>"

definition noCallbacks :: "unit RouterCallbacks" where
  "noCallbacks = \<lparr> onRoutingDecision = None, onCerebellumSuccess = None,
     onCerebellumFailure = None, onFallbackToCerebrum = None \<rparr>"

definition readyRouter :: "bool \<Rightarrow> unit DualKernelRouter" where
  "readyRouter fallback =
     checkAvailability failNet
       (createDualKernelRouter
          \<lparr> RouterOptions.config = DEFAULT_CEREBELLUM_CONFIG,
            RouterOptions.callbacks = Some noCallbacks,
            RouterOptions.enableFallback = Some fallback \<rparr> None True)"

definition quietOutside :: "unit Outside" where
  "quietOutside = \<lparr> observer = (), kernelCalls = 0 \<rparr>"

section \<open>Properties of the double arithmetic\<close>

lemma fl_zero: "fl 0 = 0"
  by (simp add: fl_def)

text \<open>
  The rounding at a few telling places: an integer is kept, a tie goes to the even
  significand, a value just below a power of two is carried up to it, and the sign is
  kept.
\<close>

lemma fl_examples:
  "fl 3 = 3"
  "fl 9007199254740993 = 9007199254740992"
  "fl 9007199254740995 = 9007199254740996"
  "fl (1 - 1 / 18014398509481984) = 1"
  "fl (- 0.1) = - (3602879701896397 / 36028797018963968)"
  "fl (1 / 3) = 6004799503160661 / 18014398509481984"
  by code_simp+

text \<open>The decimal literals of the evaluator, as the doubles they denote.\<close>

lemma fl_literals:
  "fl 0.1 = 3602879701896397 / 36028797018963968"
  "fl 0.2 = 3602879701896397 / 18014398509481984"
  "fl 0.6 = 5404319552844595 / 9007199254740992"
  "fl 0.7 = 3152519739159347 / 4503599627370496"
  by code_simp+

text \<open>
  The sums that \<^verbatim>\<open>calculateConfidence\<close> can form: \<^verbatim>\<open>0.5 + 0.2\<close> is the double
  \<^verbatim>\<open>0.7\<close>, while \<^verbatim>\<open>0.5 + 0.2 + 0.1\<close>, \<^verbatim>\<open>0.5 + 0.2 + 0.2\<close> and
  \<^verbatim>\<open>0.5 + 0.2 + 0.2 + 0.1\<close> are the doubles just below \<open>0.8\<close>, \<open>0.9\<close> and \<open>1\<close>.
\<close>

lemma confidence_sums:
  "fl (0.5 + fl 0.2) = fl 0.7"
  "fl (fl (0.5 + fl 0.2) + fl 0.1) = 7205759403792793 / 9007199254740992"
  "fl (fl (0.5 + fl 0.2) + fl 0.2) = 2026619832316723 / 2251799813685248"
  "fl (fl (fl (0.5 + fl 0.2) + fl 0.2) + fl 0.1) = 9007199254740991 / 9007199254740992"
  by code_simp+

text \<open>
  16025 tokens at complexity 1 with the cerebellum disabled: the double product is just
  below \<open>961.5\<close>, and the estimate is 991 seconds.
\<close>

lemma estimateExecutionTime_example:
  "estimateExecutionTime (DEFAULT_CEREBELLUM_CONFIG\<lparr>CerebellumConfig.enabled := False\<rparr>)
     (greetingTask\<lparr>TaskInfo.estimatedTokens := 16025\<rparr>) 1 = 991"
proof -
  have v: "fl (fl 30 + fl (fl (641 / 40) * 60)) = 8721326231519231 / 8796093022208"
    by code_simp
  show ?thesis
    by (simp add: estimateExecutionTime_def greetingTask_def DEFAULT_CEREBELLUM_CONFIG_def
        v round_def)
qed

section \<open>Properties of the task evaluator\<close>

subsection \<open>The forced rules\<close>

lemma checkForcedRules_marker:
  "markerRule (TaskInfo.prompt task) \<Longrightarrow>
     \<exists>why. checkForcedRules lc cfg task = Some (keywordAssessment why task)"
  by (auto simp: markerRule_def checkForcedRules_def Let_def split: option.splits)

lemma checkForcedRules_no_marker:
  "\<not> markerRule (TaskInfo.prompt task) \<Longrightarrow>
     checkForcedRules lc cfg task = checkPrefixAndLists lc cfg task"
  by (auto simp: markerRule_def checkForcedRules_def Let_def split: option.splits)

lemma keywordAssessment_local:
  "useCerebellum (keywordAssessment why task) \<and> confidence (keywordAssessment why task) = 1"
  by (simp add: keywordAssessment_def)

lemma evaluate_forced:
  "checkForcedRules lc cfg task = Some a \<Longrightarrow> evaluate lc cfg task = a"
  by (simp add: evaluate_def)

lemma checkPrefixAndLists_forceCerebellum:
  assumes "type task \<in> set (forceCerebellumFor cfg)"
  shows "\<exists>a. checkPrefixAndLists lc cfg task = Some a \<and> useCerebellum a \<and> confidence a = 1"
  using assms by (simp add: checkPrefixAndLists_def Let_def keywordAssessment_def)

lemma checkPrefixAndLists_forceCerebrum:
  assumes "type task \<in> set (forceCerebrumFor cfg)"
    and "type task \<notin> set (forceCerebellumFor cfg)"
    and "\<not> hasTriggerPrefix (lc (trim (TaskInfo.prompt task)))"
  shows "\<exists>a. checkPrefixAndLists lc cfg task = Some a \<and> \<not> useCerebellum a \<and> confidence a = 1"
  using assms by (simp add: checkPrefixAndLists_def Let_def)

text \<open>
  C1 (as amended). A task whose declared type is in \<open>forceCerebellumFor\<close> is assessed
  \<open>useCerebellum = true\<close> with confidence 1 whatever the prompt is. A task whose
  declared type is in \<open>forceCerebrumFor\<close> is assessed \<open>useCerebellum = false\<close> with
  confidence 1 provided the rules checked before that list do not apply: the marker rule
  does not fire, the prompt has no trigger prefix, and the type is not in
  \<open>forceCerebellumFor\<close> as well.
\<close>

theorem forced_category_precedence:
  "(type task \<in> set (forceCerebellumFor cfg) \<longrightarrow>
      useCerebellum (evaluate lc cfg task) \<and> confidence (evaluate lc cfg task) = 1)
   \<and> (type task \<in> set (forceCerebrumFor cfg) \<and> type task \<notin> set (forceCerebellumFor cfg)
        \<and> \<not> markerRule (TaskInfo.prompt task) \<and> \<not> hasTriggerPrefix (lc (trim (TaskInfo.prompt task))) \<longrightarrow>
      \<not> useCerebellum (evaluate lc cfg task) \<and> confidence (evaluate lc cfg task) = 1)"
proof (rule conjI; rule impI)
  assume local: "type task \<in> set (forceCerebellumFor cfg)"
  show "useCerebellum (evaluate lc cfg task) \<and> confidence (evaluate lc cfg task) = 1"
  proof (cases "markerRule (TaskInfo.prompt task)")
    case True
    then obtain why where "checkForcedRules lc cfg task = Some (keywordAssessment why task)"
      using checkForcedRules_marker by blast
    then show ?thesis
      by (simp add: evaluate_forced keywordAssessment_local)
  next
    case False
    obtain a where "checkPrefixAndLists lc cfg task = Some a" "useCerebellum a" "confidence a = 1"
      using checkPrefixAndLists_forceCerebellum [OF local] by blast
    with False show ?thesis
      by (simp add: checkForcedRules_no_marker evaluate_forced)
  qed
next
  assume remote: "type task \<in> set (forceCerebrumFor cfg) \<and> type task \<notin> set (forceCerebellumFor cfg)
        \<and> \<not> markerRule (TaskInfo.prompt task) \<and> \<not> hasTriggerPrefix (lc (trim (TaskInfo.prompt task)))"
  then obtain a where "checkPrefixAndLists lc cfg task = Some a" "\<not> useCerebellum a" "confidence a = 1"
    using checkPrefixAndLists_forceCerebrum by blast
  with remote show "\<not> useCerebellum (evaluate lc cfg task) \<and> confidence (evaluate lc cfg task) = 1"
    by (simp add: checkForcedRules_no_marker evaluate_forced)
qed

lemma codeTask_no_marker: "\<not> markerRule (TaskInfo.prompt codeTask)"
  by (simp add: codeTask_def markerRule_def js_def canonicalize_def)

lemma codeTask_no_prefix: "\<not> hasTriggerPrefix (asciiLowerCase (trim (TaskInfo.prompt codeTask)))"
  by (simp add: codeTask_def hasTriggerPrefix_def trim_def isWhiteSpace_def asciiLowerCase_def js_def)

text \<open>Both halves at concrete tasks of the test suite, under the default configuration.\<close>

theorem forced_category_precedence_witness:
  "type greetingTask \<in> set (forceCerebellumFor DEFAULT_CEREBELLUM_CONFIG)
   \<and> useCerebellum (evaluate asciiLowerCase DEFAULT_CEREBELLUM_CONFIG greetingTask)
   \<and> confidence (evaluate asciiLowerCase DEFAULT_CEREBELLUM_CONFIG greetingTask) = 1
   \<and> type codeTask \<in> set (forceCerebrumFor DEFAULT_CEREBELLUM_CONFIG)
   \<and> type codeTask \<notin> set (forceCerebellumFor DEFAULT_CEREBELLUM_CONFIG)
   \<and> \<not> markerRule (TaskInfo.prompt codeTask)
   \<and> \<not> hasTriggerPrefix (asciiLowerCase (trim (TaskInfo.prompt codeTask)))
   \<and> \<not> useCerebellum (evaluate asciiLowerCase DEFAULT_CEREBELLUM_CONFIG codeTask)
   \<and> confidence (evaluate asciiLowerCase DEFAULT_CEREBELLUM_CONFIG codeTask) = 1"
proof -
  have g: "type greetingTask \<in> set (forceCerebellumFor DEFAULT_CEREBELLUM_CONFIG)"
    by (simp add: greetingTask_def DEFAULT_CEREBELLUM_CONFIG_def)
  have c: "type codeTask \<in> set (forceCerebrumFor DEFAULT_CEREBELLUM_CONFIG)"
     "type codeTask \<notin> set (forceCerebellumFor DEFAULT_CEREBELLUM_CONFIG)"
    by (simp_all add: codeTask_def DEFAULT_CEREBELLUM_CONFIG_def)
  show ?thesis
    using g c codeTask_no_marker codeTask_no_prefix
      forced_category_precedence [of greetingTask DEFAULT_CEREBELLUM_CONFIG asciiLowerCase]
      forced_category_precedence [of codeTask DEFAULT_CEREBELLUM_CONFIG asciiLowerCase]
    by blast
qed

lemma taggedCodeTask_marker: "markerRule (TaskInfo.prompt taggedCodeTask)"
  by (simp add: taggedCodeTask_def markerRule_def js_def canonicalize_def)

text \<open>
  C1 as stated fails in its second half: the documentation's tagged example has a type in
  \<open>forceCerebrumFor\<close> and is routed to the cerebellum.
\<close>

theorem forced_cerebrum_counterexample:
  "type taggedCodeTask \<in> set (forceCerebrumFor DEFAULT_CEREBELLUM_CONFIG)
   \<and> useCerebellum (evaluate asciiLowerCase DEFAULT_CEREBELLUM_CONFIG taggedCodeTask)"
proof -
  obtain why where "checkForcedRules asciiLowerCase DEFAULT_CEREBELLUM_CONFIG taggedCodeTask
      = Some (keywordAssessment why taggedCodeTask)"
    using checkForcedRules_marker [OF taggedCodeTask_marker] by blast
  then show ?thesis
    by (simp add: evaluate_forced keywordAssessment_local)
      (simp add: taggedCodeTask_def DEFAULT_CEREBELLUM_CONFIG_def)
qed

text \<open>\<open>matchIndex\<close> returns the leftmost position where the pattern matches.\<close>

lemma matchesAt_append: "matchesAt pat s \<Longrightarrow> matchesAt pat (s @ rest)"
  by (induction pat s rule: matchesAt.induct) auto

lemma matchIndex_le:
  "matchesAt pat (drop k s) \<Longrightarrow> k \<le> length s \<Longrightarrow> \<exists>i\<le>k. matchIndex pat s = Some i"
proof (induction s arbitrary: k)
  case Nil
  then show ?case by (cases pat) auto
next
  case (Cons c cs)
  show ?case
  proof (cases "matchesAt pat (c # cs)")
    case True
    then show ?thesis by simp
  next
    case False
    with Cons.prems obtain k' where k: "k = Suc k'" by (cases k) auto
    with Cons.prems have "matchesAt pat (drop k' cs)" "k' \<le> length cs" by auto
    then obtain i where "i \<le> k'" "matchIndex pat cs = Some i"
      using Cons.IH by blast
    with False k show ?thesis by auto
  qed
qed

lemma matchIndex_sound:
  "matchIndex pat s = Some i \<Longrightarrow> i \<le> length s \<and> matchesAt pat (drop i s)"
proof (induction s arbitrary: i)
  case Nil
  then show ?case by (auto split: if_splits)
next
  case (Cons c cs)
  then show ?case by (auto split: if_splits)
qed

lemma matchIndex_leftmost:
  "matchIndex pat s = Some i \<Longrightarrow> k < i \<Longrightarrow> \<not> matchesAt pat (drop k s)"
proof (induction s arbitrary: i k)
  case Nil
  then show ?case by (auto split: if_splits)
next
  case (Cons c cs)
  then show ?case by (cases k) (auto split: if_splits)
qed

text \<open>
  C2 (as amended). If the prompt is \<open>pre @ opn @ mid @ rest\<close> where \<open>opn\<close> is the open
  marker \<^verbatim>\<open><cb>\<close> in any letter case, \<open>mid\<close> is not empty, and the first close
  marker \<^verbatim>\<open></cb>\<close> of the whole prompt begins right after \<open>mid\<close>, then the task is
  assessed \<open>useCerebellum = true\<close> with confidence 1 and type \<open>keyword_triggered\<close>,
  whatever its declared type and the configured lists are: the marker check comes first.
\<close>

theorem marker_precedes_category:
  assumes form: "TaskInfo.prompt task = pre @ opn @ mid @ rest"
    and opn: "length opn = 4" "matchesAt (js ''<cb>'') opn"
    and mid: "mid \<noteq> []"
    and cls: "matchIndex (js ''</cb>'') (TaskInfo.prompt task) = Some (length pre + 4 + length mid)"
  shows "useCerebellum (evaluate lc cfg task) \<and> confidence (evaluate lc cfg task) = 1
         \<and> TaskAssessment.taskType (evaluate lc cfg task) = keyword_triggered"
proof -
  have "matchesAt (js ''<cb>'') (drop (length pre) (TaskInfo.prompt task))"
    using form opn(2) by (simp add: matchesAt_append)
  moreover have "length pre \<le> length (TaskInfo.prompt task)"
    using form by simp
  ultimately obtain i where i: "i \<le> length pre" "matchIndex (js ''<cb>'') (TaskInfo.prompt task) = Some i"
    using matchIndex_le by blast
  from i(1) mid have "i + 4 < length pre + 4 + length mid"
    by (cases mid) auto
  with i(2) cls have "checkForcedRules lc cfg task = Some (keywordAssessment
      ''Full Cerebellum Mode: processing content within <cb>...</cb> tags'' task)"
    by (simp add: checkForcedRules_def)
  then show ?thesis
    by (simp add: evaluate_def keywordAssessment_def)
qed

text \<open>The example of the specification, with a type that the default lists send to the cerebrum.\<close>

theorem marker_precedes_category_witness:
  "TaskInfo.prompt summarizeTask = [] @ js ''<cb>'' @ js ''summarize this'' @ js ''</cb>''
   \<and> length (js ''<cb>'') = 4 \<and> matchesAt (js ''<cb>'') (js ''<cb>'')
   \<and> js ''summarize this'' \<noteq> []
   \<and> matchIndex (js ''</cb>'') (TaskInfo.prompt summarizeTask)
       = Some (length ([] :: jsstring) + 4 + length (js ''summarize this''))
   \<and> type summarizeTask \<in> set (forceCerebrumFor DEFAULT_CEREBELLUM_CONFIG)
   \<and> useCerebellum (evaluate asciiLowerCase DEFAULT_CEREBELLUM_CONFIG summarizeTask)
   \<and> confidence (evaluate asciiLowerCase DEFAULT_CEREBELLUM_CONFIG summarizeTask) = 1
   \<and> TaskAssessment.taskType (evaluate asciiLowerCase DEFAULT_CEREBELLUM_CONFIG summarizeTask) = keyword_triggered"
proof -
  have form: "TaskInfo.prompt summarizeTask = [] @ js ''<cb>'' @ js ''summarize this'' @ js ''</cb>''"
    by (simp add: summarizeTask_def js_def)
  have opn: "length (js ''<cb>'') = 4" "matchesAt (js ''<cb>'') (js ''<cb>'')"
    by (simp_all add: js_def)
  have mid: "js ''summarize this'' \<noteq> []"
    by (simp add: js_def)
  have cls: "matchIndex (js ''</cb>'') (TaskInfo.prompt summarizeTask)
       = Some (length ([] :: jsstring) + 4 + length (js ''summarize this''))"
    by (simp add: summarizeTask_def js_def canonicalize_def)
  have ty: "type summarizeTask \<in> set (forceCerebrumFor DEFAULT_CEREBELLUM_CONFIG)"
    by (simp add: summarizeTask_def DEFAULT_CEREBELLUM_CONFIG_def)
  show ?thesis
    using form opn mid cls ty
      marker_precedes_category [OF form opn mid cls, of asciiLowerCase DEFAULT_CEREBELLUM_CONFIG]
    by blast
qed

lemma strayCloseTask_no_marker: "\<not> markerRule (TaskInfo.prompt strayCloseTask)"
  by (simp add: strayCloseTask_def markerRule_def js_def canonicalize_def)

lemma strayCloseTask_no_prefix:
  "\<not> hasTriggerPrefix (asciiLowerCase (trim (TaskInfo.prompt strayCloseTask)))"
  by (simp add: strayCloseTask_def hasTriggerPrefix_def trim_def isWhiteSpace_def
      asciiLowerCase_def js_def)

text \<open>
  C2 as stated fails when a close marker stands before the pair: the prompt below contains
  \<^verbatim>\<open><cb>x</cb>\<close>, but the first close marker found is the stray one at index 0, the
  marker rule does not fire, and the declared type decides.
\<close>

theorem paired_marker_counterexample:
  "TaskInfo.prompt strayCloseTask = js ''</cb>'' @ js ''<cb>'' @ js ''x'' @ js ''</cb>''
   \<and> js ''x'' \<noteq> []
   \<and> type strayCloseTask \<in> set (forceCerebrumFor DEFAULT_CEREBELLUM_CONFIG)
   \<and> \<not> useCerebellum (evaluate asciiLowerCase DEFAULT_CEREBELLUM_CONFIG strayCloseTask)"
proof -
  have "checkForcedRules asciiLowerCase DEFAULT_CEREBELLUM_CONFIG strayCloseTask
      = checkPrefixAndLists asciiLowerCase DEFAULT_CEREBELLUM_CONFIG strayCloseTask"
    using strayCloseTask_no_marker by (rule checkForcedRules_no_marker)
  moreover have "type strayCloseTask = code_generation"
    by (simp add: strayCloseTask_def)
  ultimately have "\<not> useCerebellum (evaluate asciiLowerCase DEFAULT_CEREBELLUM_CONFIG strayCloseTask)"
    using strayCloseTask_no_prefix
    by (simp add: evaluate_def checkPrefixAndLists_def DEFAULT_CEREBELLUM_CONFIG_def)
  moreover have "TaskInfo.prompt strayCloseTask = js ''</cb>'' @ js ''<cb>'' @ js ''x'' @ js ''</cb>''"
    by (simp add: strayCloseTask_def js_def)
  moreover have "type strayCloseTask \<in> set (forceCerebrumFor DEFAULT_CEREBELLUM_CONFIG)"
    by (simp add: strayCloseTask_def DEFAULT_CEREBELLUM_CONFIG_def)
  ultimately show ?thesis
    by (simp add: js_def)
qed

text \<open>
  C10. If both markers are found and the first close marker begins at or before the end
  of the first open marker (empty content, or a close marker that comes first), the marker
  rule does not fire and the unpaired-open-marker branch is not taken either: the result is
  that of the prefix check and the two lists. So without a trigger prefix such a prompt
  is not forced at all when the type is in neither list, and is sent to the cerebrum when
  the type is in \<open>forceCerebrumFor\<close> only.
\<close>

theorem unpaired_close_falls_through:
  assumes "matchIndex (js ''<cb>'') (TaskInfo.prompt task) = Some i"
    and "matchIndex (js ''</cb>'') (TaskInfo.prompt task) = Some j"
    and "j \<le> i + 4"
  shows "checkForcedRules lc cfg task = checkPrefixAndLists lc cfg task
    \<and> (\<not> hasTriggerPrefix (lc (trim (TaskInfo.prompt task)))
         \<and> type task \<notin> set (forceCerebellumFor cfg) \<and> type task \<notin> set (forceCerebrumFor cfg)
        \<longrightarrow> checkForcedRules lc cfg task = None)
    \<and> (\<not> hasTriggerPrefix (lc (trim (TaskInfo.prompt task)))
         \<and> type task \<notin> set (forceCerebellumFor cfg) \<and> type task \<in> set (forceCerebrumFor cfg)
        \<longrightarrow> \<not> useCerebellum (evaluate lc cfg task))"
proof -
  have fall: "checkForcedRules lc cfg task = checkPrefixAndLists lc cfg task"
    using assms by (simp add: checkForcedRules_def)
  then show ?thesis
    by (simp add: evaluate_def checkPrefixAndLists_def)
qed

text \<open>The two shapes: \<^verbatim>\<open><cb></cb>\<close> and a close marker before the open one.\<close>

theorem unpaired_close_falls_through_witness:
  "matchIndex (js ''<cb>'') (TaskInfo.prompt emptyTagTask) = Some 0
   \<and> matchIndex (js ''</cb>'') (TaskInfo.prompt emptyTagTask) = Some 4
   \<and> (4::nat) \<le> 0 + 4
   \<and> \<not> hasTriggerPrefix (asciiLowerCase (trim (TaskInfo.prompt emptyTagTask)))
   \<and> type emptyTagTask \<notin> set (forceCerebellumFor DEFAULT_CEREBELLUM_CONFIG)
   \<and> type emptyTagTask \<notin> set (forceCerebrumFor DEFAULT_CEREBELLUM_CONFIG)
   \<and> checkForcedRules asciiLowerCase DEFAULT_CEREBELLUM_CONFIG emptyTagTask = None
   \<and> matchIndex (js ''<cb>'') (TaskInfo.prompt reversedTagTask) = Some 11
   \<and> matchIndex (js ''</cb>'') (TaskInfo.prompt reversedTagTask) = Some 0
   \<and> (0::nat) \<le> 11 + 4
   \<and> \<not> hasTriggerPrefix (asciiLowerCase (trim (TaskInfo.prompt reversedTagTask)))
   \<and> type reversedTagTask \<notin> set (forceCerebellumFor DEFAULT_CEREBELLUM_CONFIG)
   \<and> type reversedTagTask \<in> set (forceCerebrumFor DEFAULT_CEREBELLUM_CONFIG)
   \<and> \<not> useCerebellum (evaluate asciiLowerCase DEFAULT_CEREBELLUM_CONFIG reversedTagTask)"
proof -
  have e: "matchIndex (js ''<cb>'') (TaskInfo.prompt emptyTagTask) = Some 0"
    "matchIndex (js ''</cb>'') (TaskInfo.prompt emptyTagTask) = Some 4" "(4::nat) \<le> 0 + 4"
    by (simp_all add: emptyTagTask_def js_def canonicalize_def)
  have e': "\<not> hasTriggerPrefix (asciiLowerCase (trim (TaskInfo.prompt emptyTagTask)))"
    "type emptyTagTask \<notin> set (forceCerebellumFor DEFAULT_CEREBELLUM_CONFIG)"
    "type emptyTagTask \<notin> set (forceCerebrumFor DEFAULT_CEREBELLUM_CONFIG)"
    by (simp_all add: emptyTagTask_def hasTriggerPrefix_def trim_def isWhiteSpace_def
        asciiLowerCase_def js_def DEFAULT_CEREBELLUM_CONFIG_def)
  have r: "matchIndex (js ''<cb>'') (TaskInfo.prompt reversedTagTask) = Some 11"
    "matchIndex (js ''</cb>'') (TaskInfo.prompt reversedTagTask) = Some 0" "(0::nat) \<le> 11 + 4"
    by (simp_all add: reversedTagTask_def js_def canonicalize_def)
  have r': "\<not> hasTriggerPrefix (asciiLowerCase (trim (TaskInfo.prompt reversedTagTask)))"
    "type reversedTagTask \<notin> set (forceCerebellumFor DEFAULT_CEREBELLUM_CONFIG)"
    "type reversedTagTask \<in> set (forceCerebrumFor DEFAULT_CEREBELLUM_CONFIG)"
    by (simp_all add: reversedTagTask_def hasTriggerPrefix_def trim_def isWhiteSpace_def
        asciiLowerCase_def js_def DEFAULT_CEREBELLUM_CONFIG_def)
  show ?thesis
    using e e' r r'
      unpaired_close_falls_through [OF e, of asciiLowerCase DEFAULT_CEREBELLUM_CONFIG]
      unpaired_close_falls_through [OF r, of asciiLowerCase DEFAULT_CEREBELLUM_CONFIG]
    by blast
qed

subsection \<open>The heuristic path\<close>

lemma evaluate_heuristic:
  assumes "checkForcedRules lc cfg task = None"
  shows "complexity (evaluate lc cfg task) = calculateComplexity task (analyzeTask lc task)"
    and "useCerebellum (evaluate lc cfg task) =
      shouldUseCerebellum cfg task (calculateComplexity task (analyzeTask lc task))
        (assessPrecisionRequirement task (analyzeTask lc task))
        (estimateExecutionTime cfg task (calculateComplexity task (analyzeTask lc task)))
        (calculateConfidence task (analyzeTask lc task)
           (calculateComplexity task (analyzeTask lc task)))"
  using assms by (simp_all add: evaluate_def Let_def)

text \<open>
  C3. When no forced rule matches and the computed complexity exceeds \<open>maxComplexity\<close>,
  the assessment has \<open>useCerebellum = false\<close>, whatever precision, time, confidence and
  hints are: it is the first test of \<^verbatim>\<open>shouldUseCerebellum\<close>.
\<close>

theorem threshold_gating:
  assumes "checkForcedRules lc cfg task = None"
    and "real_of_int (complexity (evaluate lc cfg task)) > maxComplexity (thresholds cfg)"
  shows "\<not> useCerebellum (evaluate lc cfg task)"
  using assms by (simp add: evaluate_heuristic shouldUseCerebellum_def)

lemma treeTask_unforced:
  "checkForcedRules asciiLowerCase DEFAULT_CEREBELLUM_CONFIG treeTask = None"
  by (simp add: treeTask_def checkForcedRules_def checkPrefixAndLists_def hasTriggerPrefix_def
      trim_def isWhiteSpace_def asciiLowerCase_def js_def canonicalize_def
      DEFAULT_CEREBELLUM_CONFIG_def)

lemma treeTask_complexity:
  "calculateComplexity treeTask (analyzeTask asciiLowerCase treeTask) = 9"
  by (simp add: treeTask_def calculateComplexity_def analyzeTask_def detectType_def
      typeComplexity_def someIncluded_def asciiLowerCase_def js_def
      codeKeywords_def mathKeywords_def creativeKeywords_def analysisKeywords_def
      planningKeywords_def greetingKeywords_def statusKeywords_def Let_def)

text \<open>The code task of the test suite: complexity 9 against the default threshold 4.\<close>

theorem threshold_gating_witness:
  "checkForcedRules asciiLowerCase DEFAULT_CEREBELLUM_CONFIG treeTask = None
   \<and> complexity (evaluate asciiLowerCase DEFAULT_CEREBELLUM_CONFIG treeTask) = 9
   \<and> maxComplexity (thresholds DEFAULT_CEREBELLUM_CONFIG) = 4
   \<and> \<not> useCerebellum (evaluate asciiLowerCase DEFAULT_CEREBELLUM_CONFIG treeTask)"
proof -
  have c: "complexity (evaluate asciiLowerCase DEFAULT_CEREBELLUM_CONFIG treeTask) = 9"
    using treeTask_unforced treeTask_complexity by (simp add: evaluate_heuristic)
  have m: "maxComplexity (thresholds DEFAULT_CEREBELLUM_CONFIG) = 4"
    by (simp add: DEFAULT_CEREBELLUM_CONFIG_def)
  have "real_of_int (complexity (evaluate asciiLowerCase DEFAULT_CEREBELLUM_CONFIG treeTask))
        > maxComplexity (thresholds DEFAULT_CEREBELLUM_CONFIG)"
    using c m by simp
  with treeTask_unforced c m threshold_gating [OF treeTask_unforced this]
  show ?thesis by blast
qed

text \<open>
  The vague task of the test suite takes the heuristic path: it is classified as a
  greeting of complexity 1, and its confidence is \<^verbatim>\<open>0.5 + 0.2 + 0.2 + 0.1\<close> in double
  arithmetic, the double just below 1. The test that compares it with the forced
  confidence 1 of a greeting depends on this.
\<close>

lemma vagueTask_unforced:
  "checkForcedRules asciiLowerCase DEFAULT_CEREBELLUM_CONFIG vagueTask = None"
  by (simp add: vagueTask_def checkForcedRules_def checkPrefixAndLists_def hasTriggerPrefix_def
      trim_def isWhiteSpace_def asciiLowerCase_def js_def canonicalize_def
      DEFAULT_CEREBELLUM_CONFIG_def)

lemma vagueTask_analysis:
  "detectedType (analyzeTask asciiLowerCase vagueTask) = greeting"
  "promptLength (analyzeTask asciiLowerCase vagueTask) = 12"
  "calculateComplexity vagueTask (analyzeTask asciiLowerCase vagueTask) = 1"
  by (simp_all add: vagueTask_def calculateComplexity_def analyzeTask_def detectType_def
      typeComplexity_def someIncluded_def asciiLowerCase_def js_def
      codeKeywords_def mathKeywords_def creativeKeywords_def analysisKeywords_def
      planningKeywords_def greetingKeywords_def statusKeywords_def Let_def)

lemma vagueTask_confidence:
  "confidence (evaluate asciiLowerCase DEFAULT_CEREBELLUM_CONFIG vagueTask)
     = 9007199254740991 / 9007199254740992"
  "confidence (evaluate asciiLowerCase DEFAULT_CEREBELLUM_CONFIG vagueTask)
     < confidence (evaluate asciiLowerCase DEFAULT_CEREBELLUM_CONFIG greetingTask)"
proof -
  have hf: "\<not> isHighFrequency vagueTask"
    by (simp add: vagueTask_def)
  have "confidence (evaluate asciiLowerCase DEFAULT_CEREBELLUM_CONFIG vagueTask)
      = calculateConfidence vagueTask (analyzeTask asciiLowerCase vagueTask) 1"
    using vagueTask_unforced by (simp add: evaluate_def Let_def vagueTask_analysis(3))
  also have "\<dots> = min 1 (max 0 (fl (fl (fl (0.5 + fl 0.2) + fl 0.2) + fl 0.1)))"
    using hf by (simp add: calculateConfidence_def Let_def vagueTask_analysis(1,2))
  also have "\<dots> = min 1 (max 0 (9007199254740991 / 9007199254740992))"
    by (simp only: confidence_sums(4))
  also have "\<dots> = 9007199254740991 / 9007199254740992"
    by simp
  finally show v: "confidence (evaluate asciiLowerCase DEFAULT_CEREBELLUM_CONFIG vagueTask)
     = 9007199254740991 / 9007199254740992" .
  have listed: "type greetingTask \<in> set (forceCerebellumFor DEFAULT_CEREBELLUM_CONFIG)"
    by (simp add: greetingTask_def DEFAULT_CEREBELLUM_CONFIG_def)
  have "confidence (evaluate asciiLowerCase DEFAULT_CEREBELLUM_CONFIG greetingTask) = 1"
  proof (cases "markerRule (TaskInfo.prompt greetingTask)")
    case True
    then obtain why where "checkForcedRules asciiLowerCase DEFAULT_CEREBELLUM_CONFIG greetingTask
        = Some (keywordAssessment why greetingTask)"
      using checkForcedRules_marker by blast
    then show ?thesis
      by (simp add: evaluate_forced keywordAssessment_local)
  next
    case False
    obtain a where "checkPrefixAndLists asciiLowerCase DEFAULT_CEREBELLUM_CONFIG greetingTask
        = Some a" "confidence a = 1"
      using checkPrefixAndLists_forceCerebellum [OF listed] by blast
    with False show ?thesis
      by (simp add: checkForcedRules_no_marker evaluate_forced)
  qed
  with v show "confidence (evaluate asciiLowerCase DEFAULT_CEREBELLUM_CONFIG vagueTask)
     < confidence (evaluate asciiLowerCase DEFAULT_CEREBELLUM_CONFIG greetingTask)"
    by simp
qed

subsection \<open>Complexity and prompt length\<close>

text \<open>With the keyword tests fixed, a longer prompt is never classified into a type of lower base score.\<close>

lemma detectType_mono:
  assumes "len \<le> len'"
  shows "typeComplexity (detectType c m cr an pl g s sch len)
       \<le> typeComplexity (detectType c m cr an pl g s sch len')"
  using assms
  by (cases g; cases s; cases c; cases m; cases pl; cases cr; cases an; cases sch;
      simp add: detectType_def typeComplexity_def)

lemma analyzeTask_fields:
  "promptLength (analyzeTask lc task) = length (TaskInfo.prompt task)"
  "detectedType (analyzeTask lc task) =
     detectType (TaskAnalysis.hasCode (analyzeTask lc task)) (TaskAnalysis.hasMath (analyzeTask lc task))
       (hasCreative (analyzeTask lc task)) (hasAnalysis (analyzeTask lc task))
       (hasPlanning (analyzeTask lc task)) (isGreeting (analyzeTask lc task))
       (isStatusQuery (analyzeTask lc task)) (isScheduledTask task) (length (TaskInfo.prompt task))"
  by (simp_all add: analyzeTask_def Let_def)

lemma if_inc: "(if b then x + 1 else x) = x + (of_bool b :: int)"
  by simp

lemma calculateComplexity_sum:
  "calculateComplexity task a =
     min 10 (max 1 (typeComplexity (detectedType a)
       + of_bool (2000 < promptLength a) + of_bool (5000 < promptLength a)
       + of_bool (TaskAnalysis.hasCode a) + of_bool (TaskAnalysis.hasMath a)
       + of_bool (10 < historyLength task) + of_bool (30 < historyLength task)
       + of_bool (2000 < TaskInfo.estimatedTokens task)
       + of_bool (4000 < TaskInfo.estimatedTokens task)))"
  unfolding calculateComplexity_def if_inc Let_def by (rule refl)

lemma clamp_mono:
  fixes x y :: int
  shows "x \<le> y \<Longrightarrow> min 10 (max 1 x) \<le> min 10 (max 1 y)"
  by linarith

text \<open>
  C6. Two tasks that differ in the prompt only, the second prompt at least as long as the
  first and with the same keyword test results: the complexity computed for the second is
  not smaller. This covers every pair of lengths, in particular those that cross 2000
  or 5000 characters.
\<close>

theorem complexity_monotone_in_length:
  assumes len: "length (TaskInfo.prompt task) \<le> length p'"
    and flags: "keywordFlags (analyzeTask lc (task\<lparr>TaskInfo.prompt := p'\<rparr>)) = keywordFlags (analyzeTask lc task)"
  shows "calculateComplexity task (analyzeTask lc task)
       \<le> calculateComplexity (task\<lparr>TaskInfo.prompt := p'\<rparr>) (analyzeTask lc (task\<lparr>TaskInfo.prompt := p'\<rparr>))"
proof -
  let ?a = "analyzeTask lc task" and ?a' = "analyzeTask lc (task\<lparr>TaskInfo.prompt := p'\<rparr>)"
  have same: "TaskAnalysis.hasCode ?a' = TaskAnalysis.hasCode ?a"
    "TaskAnalysis.hasMath ?a' = TaskAnalysis.hasMath ?a"
    "hasCreative ?a' = hasCreative ?a" "hasAnalysis ?a' = hasAnalysis ?a"
    "hasPlanning ?a' = hasPlanning ?a" "isGreeting ?a' = isGreeting ?a"
    "isStatusQuery ?a' = isStatusQuery ?a"
    using flags by (simp_all add: keywordFlags_def)
  have base: "typeComplexity (detectedType ?a) \<le> typeComplexity (detectedType ?a')"
    unfolding analyzeTask_fields(2) same using len by (simp add: detectType_mono)
  have plen: "promptLength ?a \<le> promptLength ?a'"
    using len by (simp add: analyzeTask_fields(1))
  have b1: "(of_bool (2000 < promptLength ?a) :: int) \<le> of_bool (2000 < promptLength ?a')"
    and b2: "(of_bool (5000 < promptLength ?a) :: int) \<le> of_bool (5000 < promptLength ?a')"
    using plen by simp_all
  have rest: "historyLength (task\<lparr>TaskInfo.prompt := p'\<rparr>) = historyLength task"
    "TaskInfo.estimatedTokens (task\<lparr>TaskInfo.prompt := p'\<rparr>) = TaskInfo.estimatedTokens task"
    by simp_all
  show ?thesis
    unfolding calculateComplexity_sum same(1,2) rest
    by (intro clamp_mono add_mono order_refl base b1 b2)
qed

lemma startsWith_replicate:
  "startsWith (replicate n c) kw \<longleftrightarrow> (\<forall>x\<in>set kw. x = c) \<and> length kw \<le> n"
proof (induction n arbitrary: kw)
  case 0
  then show ?case by (cases kw) auto
next
  case (Suc n)
  then show ?case by (cases kw) auto
qed

lemma js_includes_replicate:
  "js_includes (replicate n c) kw \<longleftrightarrow> (\<forall>x\<in>set kw. x = c) \<and> length kw \<le> n"
proof (induction n)
  case 0
  then show ?case by auto
next
  case (Suc n)
  have "js_includes (replicate (Suc n) c) kw
      \<longleftrightarrow> startsWith (replicate (Suc n) c) kw \<or> js_includes (replicate n c) kw"
    by simp
  then show ?case
    unfolding Suc startsWith_replicate by auto
qed

lemma filler_flags:
  "keywordFlags (analyzeTask asciiLowerCase (fillerTask\<lparr>TaskInfo.prompt := replicate n 97\<rparr>))
     = (False, False, False, False, False, False, False)"
  by (simp add: keywordFlags_def analyzeTask_def fillerTask_def Let_def asciiLowerCase_def
      someIncluded_def js_includes_replicate js_def
      codeKeywords_def mathKeywords_def creativeKeywords_def analysisKeywords_def
      planningKeywords_def greetingKeywords_def statusKeywords_def)

lemma filler_complexity:
  "calculateComplexity (fillerTask\<lparr>TaskInfo.prompt := replicate n 97\<rparr>)
     (analyzeTask asciiLowerCase (fillerTask\<lparr>TaskInfo.prompt := replicate n 97\<rparr>))
   = (if n < 150 then 2 else if n \<le> 2000 then 5 else if n \<le> 5000 then 6 else 7)"
  by (simp add: calculateComplexity_def analyzeTask_def fillerTask_def Let_def asciiLowerCase_def
      someIncluded_def js_includes_replicate js_def detectType_def typeComplexity_def
      codeKeywords_def mathKeywords_def creativeKeywords_def analysisKeywords_def
      planningKeywords_def greetingKeywords_def statusKeywords_def)

text \<open>A prompt of 1500 letters \<open>a\<close> against one of 6000: complexity 5 against 7.\<close>

theorem complexity_monotone_in_length_witness:
  "length (TaskInfo.prompt fillerTask) \<le> length (replicate 6000 (97::nat))
   \<and> keywordFlags (analyzeTask asciiLowerCase (fillerTask\<lparr>TaskInfo.prompt := replicate 6000 97\<rparr>))
       = keywordFlags (analyzeTask asciiLowerCase fillerTask)
   \<and> calculateComplexity fillerTask (analyzeTask asciiLowerCase fillerTask) = 5
   \<and> calculateComplexity (fillerTask\<lparr>TaskInfo.prompt := replicate 6000 97\<rparr>)
        (analyzeTask asciiLowerCase (fillerTask\<lparr>TaskInfo.prompt := replicate 6000 97\<rparr>)) = 7
   \<and> calculateComplexity fillerTask (analyzeTask asciiLowerCase fillerTask)
       \<le> calculateComplexity (fillerTask\<lparr>TaskInfo.prompt := replicate 6000 97\<rparr>)
            (analyzeTask asciiLowerCase (fillerTask\<lparr>TaskInfo.prompt := replicate 6000 97\<rparr>))"
proof -
  have self: "fillerTask = fillerTask\<lparr>TaskInfo.prompt := replicate 1500 97\<rparr>"
    by (simp add: fillerTask_def)
  have len: "length (TaskInfo.prompt fillerTask) \<le> length (replicate 6000 (97::nat))"
    by (simp add: fillerTask_def)
  have flags: "keywordFlags (analyzeTask asciiLowerCase (fillerTask\<lparr>TaskInfo.prompt := replicate 6000 97\<rparr>))
       = keywordFlags (analyzeTask asciiLowerCase fillerTask)"
    using filler_flags [of 6000] filler_flags [of 1500] self by simp
  have c1: "calculateComplexity fillerTask (analyzeTask asciiLowerCase fillerTask) = 5"
    using filler_complexity [of 1500] self by simp
  have c2: "calculateComplexity (fillerTask\<lparr>TaskInfo.prompt := replicate 6000 97\<rparr>)
        (analyzeTask asciiLowerCase (fillerTask\<lparr>TaskInfo.prompt := replicate 6000 97\<rparr>)) = 7"
    using filler_complexity [of 6000] by simp
  show ?thesis
    using len flags c1 c2 complexity_monotone_in_length [OF len flags] by blast
qed

section \<open>Properties of the stats collector\<close>

lemma stored_cache: "cache s = Some data \<Longrightarrow> stored now s = data"
  by (simp add: stored_def loadData_def)

lemma loadData_config: "StatsCollector.config (snd (loadData now s)) = StatsCollector.config s"
  by (simp add: loadData_def split: option.splits)

lemma saveData_enabled:
  "StatsConfig.enabled (StatsCollector.config s) \<Longrightarrow>
     cache (saveData now data s) = Some (data\<lparr>StatsData.lastUpdated := now\<rparr>)
     \<and> StatsCollector.config (saveData now data s) = StatsCollector.config s
     \<and> (writable s \<longrightarrow> logFile (saveData now data s) = Some (data\<lparr>StatsData.lastUpdated := now\<rparr>))"
  by (simp add: saveData_def Let_def)

lemma sliceLast_length: "length (sliceLast n xs) \<le> n"
  by (simp add: sliceLast_def)

lemma recordDecision_step:
  assumes en: "StatsConfig.enabled (StatsCollector.config s)"
  shows "cache (recordDecision now decision s) = Some (stored now' (recordDecision now decision s))"
    and "StatsCollector.config (recordDecision now decision s) = StatsCollector.config s"
    and "entries (stored now' (recordDecision now decision s)) =
          (if length (entries (stored now s)) + 1 > 10000
           then sliceLast 5000 (entries (stored now s) @ [newEntry now decision])
           else entries (stored now s) @ [newEntry now decision])"
    and "StatsData.totalRequests (stored now' (recordDecision now decision s))
          = StatsData.totalRequests (stored now s) + 1"
    and "StatsData.successfulRequests (stored now' (recordDecision now decision s))
          = StatsData.successfulRequests (stored now s)"
    and "StatsData.failedRequests (stored now' (recordDecision now decision s))
          = StatsData.failedRequests (stored now s)"
    and "totalDurationMs (stored now' (recordDecision now decision s))
          = totalDurationMs (stored now s)"
    and "StatsData.tokensSaved (stored now' (recordDecision now decision s))
          = StatsData.tokensSaved (stored now s)"
proof -
  obtain data s1 where ld: "loadData now s = (data, s1)"
    by (cases "loadData now s")
  have s1: "StatsConfig.enabled (StatsCollector.config s1)"
    using loadData_config [of now s] ld en by simp
  define data3 where "data3 =
     (if length (entries data) + 1 > 10000
      then data\<lparr>StatsData.totalRequests := StatsData.totalRequests data + 1,
                entries := sliceLast 5000 (entries data @ [newEntry now decision])\<rparr>
      else data\<lparr>entries := entries data @ [newEntry now decision],
                StatsData.totalRequests := StatsData.totalRequests data + 1\<rparr>)"
  have rd: "recordDecision now decision s = saveData now data3 s1"
    using en ld by (simp add: recordDecision_def Let_def data3_def)
  have c: "cache (recordDecision now decision s) = Some (data3\<lparr>StatsData.lastUpdated := now\<rparr>)"
    using saveData_enabled [OF s1] rd by simp
  have st: "stored now' (recordDecision now decision s) = data3\<lparr>StatsData.lastUpdated := now\<rparr>"
    using c by (rule stored_cache)
  have d: "stored now s = data"
    using ld by (simp add: stored_def)
  show "cache (recordDecision now decision s) = Some (stored now' (recordDecision now decision s))"
    using c st by simp
  show "StatsCollector.config (recordDecision now decision s) = StatsCollector.config s"
    using saveData_enabled [OF s1] rd loadData_config [of now s] ld by simp
  show "entries (stored now' (recordDecision now decision s)) =
          (if length (entries (stored now s)) + 1 > 10000
           then sliceLast 5000 (entries (stored now s) @ [newEntry now decision])
           else entries (stored now s) @ [newEntry now decision])"
    unfolding st d by (simp add: data3_def)
  show "StatsData.totalRequests (stored now' (recordDecision now decision s))
          = StatsData.totalRequests (stored now s) + 1"
    unfolding st d by (simp add: data3_def)
  show "StatsData.successfulRequests (stored now' (recordDecision now decision s))
          = StatsData.successfulRequests (stored now s)"
    unfolding st d by (simp add: data3_def)
  show "StatsData.failedRequests (stored now' (recordDecision now decision s))
          = StatsData.failedRequests (stored now s)"
    unfolding st d by (simp add: data3_def)
  show "totalDurationMs (stored now' (recordDecision now decision s))
          = totalDurationMs (stored now s)"
    unfolding st d by (simp add: data3_def)
  show "StatsData.tokensSaved (stored now' (recordDecision now decision s))
          = StatsData.tokensSaved (stored now s)"
    unfolding st d by (simp add: data3_def)
qed

lemma recordDecision_length:
  assumes "StatsConfig.enabled (StatsCollector.config s)"
  shows "length (entries (stored now' (recordDecision now decision s))) \<le> 10000"
  unfolding recordDecision_step(3) [OF assms]
  using sliceLast_length [of 5000 "entries (stored now s) @ [newEntry now decision]"]
  by (simp split: if_splits)

lemma recordDecisions_totals:
  assumes "StatsConfig.enabled (StatsCollector.config s)" and "cache s = Some data"
    and "length (entries data) \<le> 10000"
  shows "StatsData.totalRequests (stored now' (recordDecisions ds s))
           = StatsData.totalRequests data + int (length ds)
       \<and> length (entries (stored now' (recordDecisions ds s))) \<le> 10000"
  using assms
proof (induction ds arbitrary: s data)
  case Nil
  then show ?case by (simp add: stored_cache)
next
  case (Cons d ds)
  obtain now decision where d: "d = (now, decision)" by (cases d)
  let ?s = "recordDecision now decision s"
  have en: "StatsConfig.enabled (StatsCollector.config ?s)"
    using recordDecision_step(2) [OF Cons.prems(1)] Cons.prems(1) by simp
  have c: "cache ?s = Some (stored now' ?s)"
    using recordDecision_step(1) [OF Cons.prems(1)] .
  have len: "length (entries (stored now' ?s)) \<le> 10000"
    using recordDecision_length [OF Cons.prems(1)] .
  have tot: "StatsData.totalRequests (stored now' ?s) = StatsData.totalRequests data + 1"
    using recordDecision_step(4) [OF Cons.prems(1)] stored_cache [OF Cons.prems(2)] by simp
  show ?case
    using Cons.IH [OF en c len] tot d by simp
qed

lemma reset_enabled:
  assumes "StatsConfig.enabled (StatsCollector.config s)"
  shows "cache (reset now s) = Some (emptyData now)" and "StatsCollector.config (reset now s) = StatsCollector.config s"
  using assms by (simp_all add: reset_def saveData_def emptyData_def Let_def)

text \<open>
  C7. With stats enabled, one \<^verbatim>\<open>recordDecision\<close> appends one entry and adds one to
  \<open>totalRequests\<close>; when the list then has more than 10000 entries it is cut to its last
  5000; the other running totals are unchanged, cut or not, and the list never has more
  than 10000 entries afterwards. After a \<^verbatim>\<open>reset\<close> and any sequence of
  \<^verbatim>\<open>recordDecision\<close> calls, \<open>totalRequests\<close> is the number of calls and the list has
  at most 10000 entries.
\<close>

theorem recordDecision_retention:
  assumes en: "StatsConfig.enabled (StatsCollector.config s)"
  shows "entries (stored now' (recordDecision now decision s)) =
          (if length (entries (stored now s)) + 1 > 10000
           then sliceLast 5000 (entries (stored now s) @ [newEntry now decision])
           else entries (stored now s) @ [newEntry now decision])
       \<and> length (entries (stored now' (recordDecision now decision s))) \<le> 10000
       \<and> StatsData.totalRequests (stored now' (recordDecision now decision s))
           = StatsData.totalRequests (stored now s) + 1
       \<and> StatsData.successfulRequests (stored now' (recordDecision now decision s))
           = StatsData.successfulRequests (stored now s)
       \<and> StatsData.failedRequests (stored now' (recordDecision now decision s))
           = StatsData.failedRequests (stored now s)
       \<and> totalDurationMs (stored now' (recordDecision now decision s))
           = totalDurationMs (stored now s)
       \<and> StatsData.tokensSaved (stored now' (recordDecision now decision s))
           = StatsData.tokensSaved (stored now s)
       \<and> StatsData.totalRequests (stored now' (recordDecisions ds (reset now0 s)))
           = int (length ds)
       \<and> length (entries (stored now' (recordDecisions ds (reset now0 s)))) \<le> 10000"
proof -
  have "StatsData.totalRequests (stored now' (recordDecisions ds (reset now0 s)))
           = StatsData.totalRequests (emptyData now0) + int (length ds)
       \<and> length (entries (stored now' (recordDecisions ds (reset now0 s)))) \<le> 10000"
    by (rule recordDecisions_totals [where data = "emptyData now0"])
       (simp_all add: reset_enabled [OF en] en, simp add: emptyData_def)
  then show ?thesis
    using recordDecision_step(3-8) [OF en] recordDecision_length [OF en]
    by (simp add: emptyData_def)
qed

lemma fullCollector_stored: "stored now fullCollector = fullData"
  by (simp add: stored_cache fullCollector_def)

text \<open>
  A collector holding 10000 entries and larger lifetime totals: the next decision leaves
  the last 4999 old entries and the new one, and only \<open>totalRequests\<close> moves.
\<close>

theorem recordDecision_retention_witness:
  "StatsConfig.enabled (StatsCollector.config fullCollector)
   \<and> length (entries (stored exampleNow fullCollector)) = 10000
   \<and> entries (stored exampleNow (recordDecision exampleNow greetingDecision fullCollector))
       = replicate 4999 oldEntry @ [newEntry exampleNow greetingDecision]
   \<and> length (entries (stored exampleNow (recordDecision exampleNow greetingDecision fullCollector))) = 5000
   \<and> StatsData.totalRequests (stored exampleNow (recordDecision exampleNow greetingDecision fullCollector)) = 25001
   \<and> StatsData.successfulRequests (stored exampleNow (recordDecision exampleNow greetingDecision fullCollector)) = 7
   \<and> StatsData.failedRequests (stored exampleNow (recordDecision exampleNow greetingDecision fullCollector)) = 3
   \<and> totalDurationMs (stored exampleNow (recordDecision exampleNow greetingDecision fullCollector)) = 900
   \<and> StatsData.tokensSaved (stored exampleNow (recordDecision exampleNow greetingDecision fullCollector)) = 1200
   \<and> StatsData.totalRequests (stored exampleNow (recordDecisions
         [(exampleNow, greetingDecision), (exampleNow, greetingDecision)] (reset exampleNow fullCollector))) = 2
   \<and> length (entries (stored exampleNow (recordDecisions
         [(exampleNow, greetingDecision), (exampleNow, greetingDecision)] (reset exampleNow fullCollector)))) \<le> 10000"
proof -
  have en: "StatsConfig.enabled (StatsCollector.config fullCollector)"
    by (simp add: fullCollector_def enabledStats_def)
  have old: "entries (stored exampleNow fullCollector) = replicate 10000 oldEntry"
    "StatsData.totalRequests (stored exampleNow fullCollector) = 25000"
    "StatsData.successfulRequests (stored exampleNow fullCollector) = 7"
    "StatsData.failedRequests (stored exampleNow fullCollector) = 3"
    "totalDurationMs (stored exampleNow fullCollector) = 900"
    "StatsData.tokensSaved (stored exampleNow fullCollector) = 1200"
    by (simp_all add: fullCollector_stored fullData_def)
  have cut: "sliceLast 5000 (replicate 10000 oldEntry @ [newEntry exampleNow greetingDecision])
      = replicate 4999 oldEntry @ [newEntry exampleNow greetingDecision]"
    by (simp add: sliceLast_def)
  show ?thesis
    using en old cut
      recordDecision_retention [OF en, of "exampleNow" "exampleNow" greetingDecision
        "[(exampleNow, greetingDecision), (exampleNow, greetingDecision)]" "exampleNow"]
    by simp
qed

lemma getStats_totals:
  "CerebellumStats.totalRequests (fst (getStats now s)) = StatsData.totalRequests (stored now s)"
  "CerebellumStats.successfulRequests (fst (getStats now s))
     = StatsData.successfulRequests (stored now s)"
  "CerebellumStats.failedRequests (fst (getStats now s)) = StatsData.failedRequests (stored now s)"
  "taskTypeStats (fst (getStats now s))
     = map_option formatAcc \<circ> foldl addEntry Map.empty (entries (stored now s))"
  by (simp_all add: getStats_def stored_def Let_def split: prod.splits)

lemma getStats_empty:
  assumes "cache s = None" and "logFile s = None"
  shows "fst (getStats now s) =
     \<lparr> CerebellumStats.totalRequests = 0, CerebellumStats.successfulRequests = 0,
       CerebellumStats.failedRequests = 0, averageResponseTime = 0,
       CerebellumStats.tokensSaved = 0, costSaved = 0, taskTypeStats = Map.empty,
       CerebellumStats.lastUpdated = now \<rparr>"
  using assms by (simp add: getStats_def loadData_def emptyData_def Let_def fl_zero)

text \<open>
  C8 (as amended). With stats disabled, \<^verbatim>\<open>recordDecision\<close>, \<^verbatim>\<open>recordSuccess\<close>,
  \<^verbatim>\<open>recordFailure\<close> and \<^verbatim>\<open>reset\<close> change nothing. \<^verbatim>\<open>getStats\<close> does not
  look at the flag: it reports the totals and the per-type map of the data it loads, and
  that is the default empty snapshot when nothing is cached and the stats file is missing
  or unreadable.
\<close>

theorem disabled_stats_noop:
  assumes off: "\<not> StatsConfig.enabled (StatsCollector.config s)"
  shows "recordDecision now decision s = s
       \<and> recordSuccess now task resp s = s
       \<and> recordFailure now task err s = s
       \<and> reset now s = s
       \<and> CerebellumStats.totalRequests (fst (getStats now s))
           = StatsData.totalRequests (stored now s)
       \<and> CerebellumStats.successfulRequests (fst (getStats now s))
           = StatsData.successfulRequests (stored now s)
       \<and> CerebellumStats.failedRequests (fst (getStats now s))
           = StatsData.failedRequests (stored now s)
       \<and> taskTypeStats (fst (getStats now s))
           = map_option formatAcc \<circ> foldl addEntry Map.empty (entries (stored now s))
       \<and> (cache s = None \<and> logFile s = None \<longrightarrow>
            fst (getStats now s) =
              \<lparr> CerebellumStats.totalRequests = 0, CerebellumStats.successfulRequests = 0,
                CerebellumStats.failedRequests = 0, averageResponseTime = 0,
                CerebellumStats.tokensSaved = 0, costSaved = 0, taskTypeStats = Map.empty,
                CerebellumStats.lastUpdated = now \<rparr>)"
proof -
  have "recordDecision now decision s = s" "recordSuccess now task resp s = s"
    "recordFailure now task err s = s" "reset now s = s"
    using off by (simp_all add: recordDecision_def recordSuccess_def recordFailure_def
        reset_def saveData_def)
  then show ?thesis
    using getStats_totals [of now s] getStats_empty [of s now] by simp
qed

text \<open>A disabled collector without a stats file.\<close>

theorem disabled_stats_noop_witness:
  "\<not> StatsConfig.enabled (StatsCollector.config freshDisabledCollector)
   \<and> cache freshDisabledCollector = None \<and> logFile freshDisabledCollector = None
   \<and> recordDecision exampleNow greetingDecision freshDisabledCollector = freshDisabledCollector
   \<and> recordSuccess exampleNow greetingTask failedResponse freshDisabledCollector = freshDisabledCollector
   \<and> recordFailure exampleNow greetingTask None freshDisabledCollector = freshDisabledCollector
   \<and> reset exampleNow freshDisabledCollector = freshDisabledCollector
   \<and> fst (getStats exampleNow freshDisabledCollector) =
              \<lparr> CerebellumStats.totalRequests = 0, CerebellumStats.successfulRequests = 0,
                CerebellumStats.failedRequests = 0, averageResponseTime = 0,
                CerebellumStats.tokensSaved = 0, costSaved = 0, taskTypeStats = Map.empty,
                CerebellumStats.lastUpdated = exampleNow \<rparr>"
proof -
  have off: "\<not> StatsConfig.enabled (StatsCollector.config freshDisabledCollector)"
    by (simp add: freshDisabledCollector_def createStatsCollector_def disabledStats_def)
  have none: "cache freshDisabledCollector = None" "logFile freshDisabledCollector = None"
    by (simp_all add: freshDisabledCollector_def createStatsCollector_def)
  show ?thesis
    using off none
      disabled_stats_noop [OF off, of exampleNow greetingDecision greetingTask failedResponse None]
    by simp
qed

text \<open>
  C8 as stated fails for \<^verbatim>\<open>getStats\<close>: a disabled collector whose stats file was
  written earlier reports the totals and the per-type map of that file.
\<close>

theorem disabled_getStats_counterexample:
  "\<not> StatsConfig.enabled (StatsCollector.config usedDisabledCollector)
   \<and> CerebellumStats.totalRequests (fst (getStats exampleNow usedDisabledCollector)) = 1
   \<and> taskTypeStats (fst (getStats exampleNow usedDisabledCollector)) unknown
       = Some \<lparr> TypeStats.count = 1, successRate = 0, averageTime = 0 \<rparr>"
  by (simp add: usedDisabledCollector_def createStatsCollector_def disabledStats_def
      getStats_def loadData_def usedData_def oldEntry_def addEntry_def formatAcc_def Let_def
      fl_zero)

section \<open>Properties of the local backend client\<close>

lemma failure_wellFormed: "wellFormedResponse (failure cfg net message)"
  by (simp add: wellFormedResponse_def failure_def)

lemma generated_wellFormed: "wellFormedResponse (generated cfg net data)"
  by (simp add: wellFormedResponse_def generated_def Let_def)

lemma generate_wellFormed: "wellFormedResponse (generate cfg net p sp opts)"
  unfolding generate_def
  by (simp add: failure_wellFormed generated_wellFormed split: settled.splits)

lemma failure_nonEmpty: "message \<noteq> [] \<Longrightarrow> nonEmptyError (failure cfg net message)"
  by (simp add: nonEmptyError_def failure_def)

lemma descriptiveErrors_post:
  assumes "descriptiveErrors net"
  shows "postGenerate net request = Rejected e \<Longrightarrow> thrownMessage e \<noteq> []"
    and "postGenerate net request = Resolved reply \<Longrightarrow>
        bodyText reply = Rejected e \<Longrightarrow> thrownMessage e \<noteq> []"
    and "postGenerate net request = Resolved reply \<Longrightarrow>
        bodyJson reply = Rejected e \<Longrightarrow> thrownMessage e \<noteq> []"
  using assms [unfolded descriptiveErrors_def, rule_format, of request]
  by (simp_all split: settled.splits)

lemma literal_nonEmpty:
  "js ''Ollama service is not available. Please ensure Ollama is running.'' \<noteq> []"
  "js ''Ollama API error: '' @ t \<noteq> []"
  "js ''Model '' @ m \<noteq> []"
  by (simp_all add: js_def)

lemma generated_success: "CerebellumResponse.success (generated cfg net data)"
  by (simp add: generated_def Let_def)

lemma generate_nonEmpty:
  assumes d: "descriptiveErrors net"
    and f: "\<not> CerebellumResponse.success (generate cfg net p sp opts)"
  shows "nonEmptyError (generate cfg net p sp opts)"
proof (cases "isAvailable net \<and> isModelAvailable cfg net None")
  case False
  have "js ''Model '' @ t \<noteq> []" for t
    by (simp add: js_def)
  with False show ?thesis
    unfolding generate_def
    by (cases "isAvailable net") (simp_all only: if_True if_False not_True_eq_False
        not_False_eq_True simp_thms failure_nonEmpty literal_nonEmpty)
next
  case ready: True
  let ?request = "generateRequest cfg p sp opts"
  show ?thesis
  proof (cases "postGenerate net ?request")
    case (Rejected e)
    then have "generate cfg net p sp opts = failure cfg net (thrownMessage e)"
      using ready by (simp add: generate_def)
    then show ?thesis
      using descriptiveErrors_post(1) [OF d Rejected] by (simp add: failure_nonEmpty)
  next
    case (Resolved reply)
    show ?thesis
    proof (cases "GenerateReply.ok reply")
      case False
      show ?thesis
      proof (cases "bodyText reply")
        case (Rejected e)
        then have "generate cfg net p sp opts = failure cfg net (thrownMessage e)"
          using ready Resolved False by (simp add: generate_def)
        then show ?thesis
          using descriptiveErrors_post(2) [OF d Resolved Rejected] by (simp add: failure_nonEmpty)
      next
        case inner: (Resolved errorText)
        then have "generate cfg net p sp opts
            = failure cfg net (js ''Ollama API error: '' @ errorText)"
          using ready Resolved False by (simp add: generate_def)
        then show ?thesis
          using failure_nonEmpty [OF literal_nonEmpty(2)] by simp
      qed
    next
      case True
      show ?thesis
      proof (cases "bodyJson reply")
        case (Rejected e)
        then have "generate cfg net p sp opts = failure cfg net (thrownMessage e)"
          using ready Resolved True by (simp add: generate_def)
        then show ?thesis
          using descriptiveErrors_post(3) [OF d Resolved Rejected] by (simp add: failure_nonEmpty)
      next
        case inner: (Resolved data)
        then have "generate cfg net p sp opts = generated cfg net data"
          using ready Resolved True by (simp add: generate_def)
        then show ?thesis
          using f by (simp add: generated_success)
      qed
    qed
  qed
qed

text \<open>
  C9 (as amended). Every response of \<^verbatim>\<open>generate\<close>, and so of \<^verbatim>\<open>quickAnswer\<close>,
  \<^verbatim>\<open>summarize\<close> and \<^verbatim>\<open>convertFormat\<close>, has this shape: \<open>success = false\<close> implies
  that the text is empty and the error field is present, \<open>success = true\<close> implies that
  the error field is absent. The error of a failed response is moreover non-empty when
  every value thrown by the generation request carries a non-empty message; the messages
  that the client writes itself are never empty.
\<close>

theorem response_invariant:
  "wellFormedResponse (generate cfg net p sp opts)
   \<and> wellFormedResponse (quickAnswer cfg net question)
   \<and> wellFormedResponse (summarize cfg net txt maxLength)
   \<and> wellFormedResponse (convertFormat cfg net content targetFormat)
   \<and> (descriptiveErrors net \<longrightarrow>
        (\<not> CerebellumResponse.success (generate cfg net p sp opts)
           \<longrightarrow> nonEmptyError (generate cfg net p sp opts))
      \<and> (\<not> CerebellumResponse.success (quickAnswer cfg net question)
           \<longrightarrow> nonEmptyError (quickAnswer cfg net question))
      \<and> (\<not> CerebellumResponse.success (summarize cfg net txt maxLength)
           \<longrightarrow> nonEmptyError (summarize cfg net txt maxLength))
      \<and> (\<not> CerebellumResponse.success (convertFormat cfg net content targetFormat)
           \<longrightarrow> nonEmptyError (convertFormat cfg net content targetFormat)))"
  unfolding quickAnswer_def summarize_def convertFormat_def Let_def
  using generate_wellFormed generate_nonEmpty by blast

lemma ready_available:
  "isAvailable failNet" "isModelAvailable DEFAULT_CEREBELLUM_CONFIG failNet None"
  "isAvailable silentNet" "isModelAvailable DEFAULT_CEREBELLUM_CONFIG silentNet None"
  "isAvailable okNet" "isModelAvailable DEFAULT_CEREBELLUM_CONFIG okNet None"
  by (simp_all add: isAvailable_def isModelAvailable_def failNet_def silentNet_def okNet_def
      readyTags_def DEFAULT_CEREBELLUM_CONFIG_def)

lemma failNet_generate:
  "generate DEFAULT_CEREBELLUM_CONFIG failNet p sp opts
     = failure DEFAULT_CEREBELLUM_CONFIG failNet (js ''fetch failed'')"
  using ready_available(1,2) by (simp add: generate_def) (simp add: failNet_def thrownMessage_def)

lemma okNet_generate:
  "CerebellumResponse.success (generate DEFAULT_CEREBELLUM_CONFIG okNet p sp opts)"
  "CerebellumResponse.error (generate DEFAULT_CEREBELLUM_CONFIG okNet p sp opts) = None"
  using ready_available(5,6)
  by (simp_all add: generate_def) (simp_all add: okNet_def generated_def Let_def)

lemma failNet_descriptive: "descriptiveErrors failNet"
  by (simp add: descriptiveErrors_def failNet_def thrownMessage_def js_def)

text \<open>A service whose generation request rejects with \<open>fetch failed\<close>, and one that answers.\<close>

theorem response_invariant_witness:
  "descriptiveErrors failNet
   \<and> \<not> CerebellumResponse.success (generate DEFAULT_CEREBELLUM_CONFIG failNet (js ''hi'') None None)
   \<and> responseText (generate DEFAULT_CEREBELLUM_CONFIG failNet (js ''hi'') None None) = []
   \<and> CerebellumResponse.error (generate DEFAULT_CEREBELLUM_CONFIG failNet (js ''hi'') None None)
       = Some (js ''fetch failed'')
   \<and> nonEmptyError (generate DEFAULT_CEREBELLUM_CONFIG failNet (js ''hi'') None None)
   \<and> \<not> CerebellumResponse.success (quickAnswer DEFAULT_CEREBELLUM_CONFIG failNet (js ''hi''))
   \<and> nonEmptyError (quickAnswer DEFAULT_CEREBELLUM_CONFIG failNet (js ''hi''))
   \<and> \<not> CerebellumResponse.success (summarize DEFAULT_CEREBELLUM_CONFIG failNet (js ''hi'') (Some 3))
   \<and> nonEmptyError (summarize DEFAULT_CEREBELLUM_CONFIG failNet (js ''hi'') (Some 3))
   \<and> \<not> CerebellumResponse.success (convertFormat DEFAULT_CEREBELLUM_CONFIG failNet (js ''hi'') json)
   \<and> nonEmptyError (convertFormat DEFAULT_CEREBELLUM_CONFIG failNet (js ''hi'') json)
   \<and> CerebellumResponse.success (generate DEFAULT_CEREBELLUM_CONFIG okNet (js ''hi'') None None)
   \<and> CerebellumResponse.error (generate DEFAULT_CEREBELLUM_CONFIG okNet (js ''hi'') None None) = None
   \<and> wellFormedResponse (generate DEFAULT_CEREBELLUM_CONFIG failNet (js ''hi'') None None)
   \<and> wellFormedResponse (generate DEFAULT_CEREBELLUM_CONFIG okNet (js ''hi'') None None)"
proof -
  have fails: "\<not> CerebellumResponse.success (generate DEFAULT_CEREBELLUM_CONFIG failNet p sp opts)"
    "responseText (generate DEFAULT_CEREBELLUM_CONFIG failNet p sp opts) = []"
    "CerebellumResponse.error (generate DEFAULT_CEREBELLUM_CONFIG failNet p sp opts)
       = Some (js ''fetch failed'')" for p sp opts
    by (simp_all add: failNet_generate failure_def)
  have others: "\<not> CerebellumResponse.success (quickAnswer DEFAULT_CEREBELLUM_CONFIG failNet (js ''hi''))"
    "\<not> CerebellumResponse.success (summarize DEFAULT_CEREBELLUM_CONFIG failNet (js ''hi'') (Some 3))"
    "\<not> CerebellumResponse.success (convertFormat DEFAULT_CEREBELLUM_CONFIG failNet (js ''hi'') json)"
    unfolding quickAnswer_def summarize_def convertFormat_def Let_def by (rule fails(1))+
  show ?thesis
    using failNet_descriptive fails [of "js ''hi''" None None] others
      okNet_generate [of "js ''hi''" None None]
      response_invariant [of DEFAULT_CEREBELLUM_CONFIG failNet "js ''hi''" None None
        "js ''hi''" "js ''hi''" "Some 3" "js ''hi''" json]
      response_invariant [of DEFAULT_CEREBELLUM_CONFIG okNet "js ''hi''" None None
        "js ''hi''" "js ''hi''" "Some 3" "js ''hi''" json]
    by blast
qed

text \<open>
  C9 as stated fails where the client passes a caught message on unchanged: when the
  generation request rejects with an \<^verbatim>\<open>Error\<close> whose message is empty, the failed
  response carries the empty string as its error.
\<close>

theorem empty_error_counterexample:
  "\<not> CerebellumResponse.success (generate DEFAULT_CEREBELLUM_CONFIG silentNet (js ''hi'') None None)
   \<and> CerebellumResponse.error (generate DEFAULT_CEREBELLUM_CONFIG silentNet (js ''hi'') None None)
       = Some []"
  using ready_available(3,4)
  by (simp add: generate_def) (simp add: silentNet_def thrownMessage_def failure_def)

section \<open>Properties of the router\<close>

lemma executeWithCerebellum_wellFormed:
  "wellFormedResponse (executeWithCerebellum lc cfg net task a)"
  unfolding executeWithCerebellum_def quickAnswer_def summarize_def convertFormat_def Let_def
  by (simp add: generate_wellFormed split: TaskType.splits)

lemma recordFailure_step:
  assumes en: "StatsConfig.enabled (StatsCollector.config s)"
  shows "StatsData.failedRequests (stored now' (recordFailure now task err s))
           = StatsData.failedRequests (stored now s) + 1"
    and "StatsData.totalRequests (stored now' (recordFailure now task err s))
           = StatsData.totalRequests (stored now s)"
proof -
  obtain data s1 where ld: "loadData now s = (data, s1)"
    by (cases "loadData now s")
  have s1: "StatsConfig.enabled (StatsCollector.config s1)"
    using loadData_config [of now s] ld en by simp
  define data2 where "data2 =
     data\<lparr>StatsData.failedRequests := StatsData.failedRequests data + 1,
          entries := updateLastEntry
             (\<lambda>e. e\<lparr>StatsEntry.success := Some False, StatsEntry.error := err\<rparr>) (entries data)\<rparr>"
  have rf: "recordFailure now task err s = saveData now data2 s1"
    using en ld by (simp add: recordFailure_def Let_def data2_def)
  have "cache (recordFailure now task err s) = Some (data2\<lparr>StatsData.lastUpdated := now\<rparr>)"
    using saveData_enabled [OF s1] rf by simp
  then have st: "stored now' (recordFailure now task err s) = data2\<lparr>StatsData.lastUpdated := now\<rparr>"
    by (rule stored_cache)
  have d: "stored now s = data"
    using ld by (simp add: stored_def)
  show "StatsData.failedRequests (stored now' (recordFailure now task err s))
           = StatsData.failedRequests (stored now s) + 1"
    unfolding st d by (simp add: data2_def)
  show "StatsData.totalRequests (stored now' (recordFailure now task err s))
           = StatsData.totalRequests (stored now s)"
    unfolding st d by (simp add: data2_def)
qed

lemma route_failure:
  assumes "useCerebellum (evaluate lc (DualKernelRouter.config r) task)"
    and "CerebellumConfig.enabled (DualKernelRouter.config r)"
    and "cerebellumAvailable r"
    and "\<not> CerebellumResponse.success
           (executeWithCerebellum lc (DualKernelRouter.config r) (network host) task
              (evaluate lc (DualKernelRouter.config r) task))"
  shows "route lc host task r w =
     (let cfg = DualKernelRouter.config r;
          cbs = DualKernelRouter.callbacks r;
          a = evaluate lc cfg task;
          decision = routingDecision host True a;
          resp = executeWithCerebellum lc cfg (network host) task a;
          r2 = r\<lparr>stats := recordFailure (isoNow host) task (CerebellumResponse.error resp)
                            (recordDecision (isoNow host) decision (stats r))\<rparr>;
          w1 = notify (map_option (\<lambda>f. f decision) (onRoutingDecision cbs)) w;
          w2 = w1\<lparr>kernelCalls := kernelCalls w1 + 1\<rparr>;
          w3 = notify (map_option
                 (\<lambda>f. f (case CerebellumResponse.error resp of
                            Some e \<Rightarrow> e | None \<Rightarrow> js ''Unknown error'') task)
                 (onCerebellumFailure cbs)) w2
      in if DualKernelRouter.enableFallback r then
           (\<lparr> RouteResult.target = cerebrum, RouteResult.assessment = a,
              cerebellumResponse = None, fallbackReason = CerebellumResponse.error resp \<rparr>,
            r2,
            notify (map_option (\<lambda>f. f (fallbackMessage (CerebellumResponse.error resp)) task)
                      (onFallbackToCerebrum cbs)) w3)
         else
           (\<lparr> RouteResult.target = cerebellum, RouteResult.assessment = a,
              cerebellumResponse = Some resp, fallbackReason = None \<rparr>, r2, w3))"
  using assms by (simp add: route_def Let_def)

lemma notify_kernelCalls: "kernelCalls (notify cb w) = kernelCalls w"
  by (simp add: notify_def split: option.splits)

text \<open>
  C4. A task that the router sends to the cerebellum (the assessment says so, the
  cerebellum is enabled and was found available) and on which the local backend call
  fails. The failed response has empty text and an error. With fallback enabled the
  result is \<open>target = cerebrum\<close> with \<open>fallbackReason\<close> that error and no response; with
  fallback disabled it is \<open>target = cerebellum\<close> with the failed response itself. In both
  cases the collector has been given the decision and then the failure, which with stats
  enabled adds one to \<open>failedRequests\<close> and one to \<open>totalRequests\<close>, and the local backend
  client has been called exactly once.
\<close>

theorem route_local_failure:
  assumes use: "useCerebellum (evaluate lc (DualKernelRouter.config r) task)"
    and on: "CerebellumConfig.enabled (DualKernelRouter.config r)"
    and avail: "cerebellumAvailable r"
    and fails: "\<not> CerebellumResponse.success
           (executeWithCerebellum lc (DualKernelRouter.config r) (network host) task
              (evaluate lc (DualKernelRouter.config r) task))"
  shows "case route lc host task r w of (res, r', w') \<Rightarrow>
     (let a = evaluate lc (DualKernelRouter.config r) task;
          resp = executeWithCerebellum lc (DualKernelRouter.config r) (network host) task a
      in RouteResult.assessment res = a
       \<and> responseText resp = [] \<and> CerebellumResponse.error resp \<noteq> None
       \<and> (DualKernelRouter.enableFallback r \<longrightarrow>
             RouteResult.target res = cerebrum
           \<and> fallbackReason res = CerebellumResponse.error resp
           \<and> fallbackReason res \<noteq> None
           \<and> cerebellumResponse res = None)
       \<and> (\<not> DualKernelRouter.enableFallback r \<longrightarrow>
             RouteResult.target res = cerebellum
           \<and> cerebellumResponse res = Some resp
           \<and> fallbackReason res = None)
       \<and> stats r' = recordFailure (isoNow host) task (CerebellumResponse.error resp)
                       (recordDecision (isoNow host) (routingDecision host True a) (stats r))
       \<and> (StatsConfig.enabled (StatsCollector.config (stats r)) \<longrightarrow>
             StatsData.failedRequests (stored now' (stats r'))
               = StatsData.failedRequests (stored (isoNow host) (stats r)) + 1
           \<and> StatsData.totalRequests (stored now' (stats r'))
               = StatsData.totalRequests (stored (isoNow host) (stats r)) + 1)
       \<and> kernelCalls w' = kernelCalls w + 1)"
proof -
  let ?a = "evaluate lc (DualKernelRouter.config r) task"
  let ?resp = "executeWithCerebellum lc (DualKernelRouter.config r) (network host) task ?a"
  let ?d = "routingDecision host True ?a"
  let ?s1 = "recordDecision (isoNow host) ?d (stats r)"
  let ?s2 = "recordFailure (isoNow host) task (CerebellumResponse.error ?resp) ?s1"
  have shape: "responseText ?resp = []" "CerebellumResponse.error ?resp \<noteq> None"
    using executeWithCerebellum_wellFormed [of lc "DualKernelRouter.config r" "network host" task ?a]
      fails by (simp_all add: wellFormedResponse_def)
  have counted: "StatsData.failedRequests (stored now' ?s2)
               = StatsData.failedRequests (stored (isoNow host) (stats r)) + 1
           \<and> StatsData.totalRequests (stored now' ?s2)
               = StatsData.totalRequests (stored (isoNow host) (stats r)) + 1"
    if en: "StatsConfig.enabled (StatsCollector.config (stats r))"
  proof -
    have en1: "StatsConfig.enabled (StatsCollector.config ?s1)"
      using recordDecision_step(2) [OF en] en by simp
    show ?thesis
      using recordFailure_step [OF en1] recordDecision_step(4,6) [OF en] by simp
  qed
  show ?thesis
    unfolding route_failure [OF use on avail fails]
    using shape counted by (simp add: Let_def notify_kernelCalls)
qed

lemma readyRouter_fields:
  "DualKernelRouter.config (readyRouter b) = DEFAULT_CEREBELLUM_CONFIG"
  "cerebellumAvailable (readyRouter b)"
  "DualKernelRouter.enableFallback (readyRouter b) = b"
  "stats (readyRouter b) = createStatsCollector (CerebellumConfig.stats DEFAULT_CEREBELLUM_CONFIG) None True"
  by (simp_all add: readyRouter_def checkAvailability_def createDualKernelRouter_def
      ready_available)

lemma greetingTask_assessment:
  "useCerebellum (evaluate asciiLowerCase DEFAULT_CEREBELLUM_CONFIG greetingTask)"
  "TaskAssessment.taskType (evaluate asciiLowerCase DEFAULT_CEREBELLUM_CONFIG greetingTask) = greeting"
proof -
  have "\<not> markerRule (TaskInfo.prompt greetingTask)"
    by (simp add: greetingTask_def markerRule_def js_def canonicalize_def)
  moreover have "\<not> hasTriggerPrefix (asciiLowerCase (trim (TaskInfo.prompt greetingTask)))"
    by (simp add: greetingTask_def hasTriggerPrefix_def trim_def isWhiteSpace_def
        asciiLowerCase_def js_def)
  ultimately have "checkForcedRules asciiLowerCase DEFAULT_CEREBELLUM_CONFIG greetingTask
    = Some \<lparr> useCerebellum = True, confidence = 1,
               reason = [Lit ''Task type '', Lit dquote, Lit (taskTypeName greeting),
                         Lit dquote, Lit '' is in forceCerebellumFor list''],
               taskType = greeting,
               estimatedTokens = 50,
               estimatedTime = 30, complexity = 2, precisionRequirement = low \<rparr>"
    by (simp add: checkForcedRules_no_marker checkPrefixAndLists_def)
       (simp add: greetingTask_def DEFAULT_CEREBELLUM_CONFIG_def)
  then show "useCerebellum (evaluate asciiLowerCase DEFAULT_CEREBELLUM_CONFIG greetingTask)"
    "TaskAssessment.taskType (evaluate asciiLowerCase DEFAULT_CEREBELLUM_CONFIG greetingTask) = greeting"
    by (simp_all add: evaluate_def)
qed

lemma greetingTask_response:
  "executeWithCerebellum asciiLowerCase DEFAULT_CEREBELLUM_CONFIG failNet greetingTask
     (evaluate asciiLowerCase DEFAULT_CEREBELLUM_CONFIG greetingTask)
   = failure DEFAULT_CEREBELLUM_CONFIG failNet (js ''fetch failed'')"
  by (simp add: executeWithCerebellum_def greetingTask_assessment(2) quickAnswer_def
      failNet_generate)

text \<open>The greeting of the test suite on a host whose generation request rejects, with and without fallback.\<close>

theorem route_local_failure_witness:
  "useCerebellum (evaluate asciiLowerCase DEFAULT_CEREBELLUM_CONFIG greetingTask)
   \<and> CerebellumConfig.enabled DEFAULT_CEREBELLUM_CONFIG
   \<and> cerebellumAvailable (readyRouter True) \<and> cerebellumAvailable (readyRouter False)
   \<and> DualKernelRouter.enableFallback (readyRouter True)
   \<and> \<not> DualKernelRouter.enableFallback (readyRouter False)
   \<and> StatsConfig.enabled (StatsCollector.config (stats (readyRouter True)))
   \<and> \<not> CerebellumResponse.success
         (executeWithCerebellum asciiLowerCase DEFAULT_CEREBELLUM_CONFIG failNet greetingTask
            (evaluate asciiLowerCase DEFAULT_CEREBELLUM_CONFIG greetingTask))
   \<and> (case route asciiLowerCase failHost greetingTask (readyRouter True) quietOutside of
        (res, r', w') \<Rightarrow>
          RouteResult.target res = cerebrum
        \<and> fallbackReason res = Some (js ''fetch failed'')
        \<and> cerebellumResponse res = None
        \<and> StatsData.failedRequests (stored exampleNow (stats r')) = 1
        \<and> StatsData.totalRequests (stored exampleNow (stats r')) = 1
        \<and> kernelCalls w' = 1)
   \<and> (case route asciiLowerCase failHost greetingTask (readyRouter False) quietOutside of
        (res, r', w') \<Rightarrow>
          RouteResult.target res = cerebellum
        \<and> cerebellumResponse res
            = Some (failure DEFAULT_CEREBELLUM_CONFIG failNet (js ''fetch failed''))
        \<and> fallbackReason res = None
        \<and> kernelCalls w' = 1)"
proof -
  have on: "CerebellumConfig.enabled DEFAULT_CEREBELLUM_CONFIG"
    by (simp add: DEFAULT_CEREBELLUM_CONFIG_def)
  have net: "network failHost = failNet" "isoNow failHost = exampleNow"
    by (simp_all add: failHost_def)
  have fails: "\<not> CerebellumResponse.success
         (executeWithCerebellum asciiLowerCase DEFAULT_CEREBELLUM_CONFIG failNet greetingTask
            (evaluate asciiLowerCase DEFAULT_CEREBELLUM_CONFIG greetingTask))"
    by (simp add: greetingTask_response failure_def)
  have err: "CerebellumResponse.error (failure DEFAULT_CEREBELLUM_CONFIG failNet (js ''fetch failed''))
      = Some (js ''fetch failed'')"
    by (simp add: failure_def)
  have st: "StatsConfig.enabled (StatsCollector.config (stats (readyRouter b)))"
    "StatsData.failedRequests (stored exampleNow (stats (readyRouter b))) = 0"
    "StatsData.totalRequests (stored exampleNow (stats (readyRouter b))) = 0" for b
    by (simp_all add: readyRouter_fields createStatsCollector_def DEFAULT_CEREBELLUM_CONFIG_def
        stored_def loadData_def emptyData_def)
  have quiet: "kernelCalls quietOutside = 0"
    by (simp add: quietOutside_def)
  have t: "case route asciiLowerCase failHost greetingTask (readyRouter True) quietOutside of
        (res, r', w') \<Rightarrow>
          RouteResult.target res = cerebrum
        \<and> fallbackReason res = Some (js ''fetch failed'')
        \<and> cerebellumResponse res = None
        \<and> StatsData.failedRequests (stored exampleNow (stats r')) = 1
        \<and> StatsData.totalRequests (stored exampleNow (stats r')) = 1
        \<and> kernelCalls w' = 1"
    using route_local_failure [where lc = asciiLowerCase and r = "readyRouter True"
        and task = greetingTask and host = failHost and w = quietOutside and now' = exampleNow]
      greetingTask_assessment(1) on fails
    by (auto simp: readyRouter_fields(1-3) net greetingTask_response err st quiet Let_def
        split: prod.splits)
  have f: "case route asciiLowerCase failHost greetingTask (readyRouter False) quietOutside of
        (res, r', w') \<Rightarrow>
          RouteResult.target res = cerebellum
        \<and> cerebellumResponse res
            = Some (failure DEFAULT_CEREBELLUM_CONFIG failNet (js ''fetch failed''))
        \<and> fallbackReason res = None
        \<and> kernelCalls w' = 1"
    using route_local_failure [where lc = asciiLowerCase and r = "readyRouter False"
        and task = greetingTask and host = failHost and w = quietOutside and now' = exampleNow]
      greetingTask_assessment(1) on fails
    by (auto simp: readyRouter_fields(1-3) net greetingTask_response err st quiet Let_def
        split: prod.splits)
  show ?thesis
    using greetingTask_assessment(1) on readyRouter_fields(2,3) st(1) fails t f by simp
qed

end
